theory Spec2Isabelle
  imports Main
begin

section \<open>Python values\<close>

text \<open>
  A Python \<open>str\<close> is a sequence of Unicode code points, so it is modelled as a list of
  naturals. \<open>U\<close> turns an ASCII literal into such a string; the Korean literals of the
  source are written out as code points.
\<close>

type_synonym ustring = "nat list"

definition U :: "string \<Rightarrow> ustring" where
  "U s = map of_char s"

text \<open>The exceptions the modelled code can meet; all are subclasses of \<open>Exception\<close>.\<close>

datatype exn =
    KeyError
  | TypeError
  | ValueError
  | AttributeError
  | RequestException
  | SlackApiError
  | OtherError

text \<open>
  The value of a field of a competition dictionary: a string or \<open>None\<close> (JSON
  \<open>null\<close>). These are the only shapes the fetchers write.
\<close>

datatype jval = JNull | JStr ustring

text \<open>A competition is a \<open>dict\<close> from field names to values.\<close>

type_synonym competition = "string \<rightharpoonup> jval"

text \<open>\<open>comp[k]\<close>: raises \<open>KeyError\<close> when the key is missing.\<close>

definition getitem :: "competition \<Rightarrow> string \<Rightarrow> exn + jval" where
  "getitem c k = (case c k of None \<Rightarrow> Inl KeyError | Some v \<Rightarrow> Inr v)"

section \<open>DiffEngine\<close>

text \<open>
  The set comprehension \<open>{comp['url'] for comp in comps}\<close>: the first missing key raises.
\<close>

fun url_set :: "competition list \<Rightarrow> exn + jval set" where
  "url_set [] = Inr {}"
| "url_set (c # cs) =
     (case getitem c ''url'' of
        Inl e \<Rightarrow> Inl e
      | Inr u \<Rightarrow> (case url_set cs of Inl e \<Rightarrow> Inl e | Inr us \<Rightarrow> Inr (insert u us)))"

text \<open>
  The list comprehension \<open>[comp for comp in comps if comp['url'] in new_urls]\<close>.
\<close>

fun comps_with_url_in :: "jval set \<Rightarrow> competition list \<Rightarrow> exn + competition list" where
  "comps_with_url_in new_urls [] = Inr []"
| "comps_with_url_in new_urls (c # cs) =
     (case getitem c ''url'' of
        Inl e \<Rightarrow> Inl e
      | Inr u \<Rightarrow>
          (case comps_with_url_in new_urls cs of
             Inl e \<Rightarrow> Inl e
           | Inr rest \<Rightarrow> Inr (if u \<in> new_urls then c # rest else rest)))"

text \<open>\<open>main.py\<close>, \<open>get_new_competitions\<close>: the saved set is built first.\<close>

definition get_new_competitions ::
  "competition list \<Rightarrow> competition list \<Rightarrow> exn + competition list" where
  "get_new_competitions current_competitions saved_competitions =
     (case url_set saved_competitions of
        Inl e \<Rightarrow> Inl e
      | Inr saved_urls \<Rightarrow>
          (case url_set current_competitions of
             Inl e \<Rightarrow> Inl e
           | Inr current_urls \<Rightarrow>
               comps_with_url_in (current_urls - saved_urls) current_competitions))"

text \<open>
  \<open>contest_noti_slackbot.py\<close>, \<open>find_new_competitions\<close>: the current set is built first.
\<close>

definition find_new_competitions ::
  "competition list \<Rightarrow> competition list \<Rightarrow> exn + competition list" where
  "find_new_competitions current_competitions previous_competitions =
     (case url_set current_competitions of
        Inl e \<Rightarrow> Inl e
      | Inr current_urls \<Rightarrow>
          (case url_set previous_competitions of
             Inl e \<Rightarrow> Inl e
           | Inr previous_urls \<Rightarrow>
               comps_with_url_in (current_urls - previous_urls) current_competitions))"

section \<open>String operations\<close>

text \<open>
  \<open>str.isspace\<close>, which \<open>str.strip()\<close> uses: the white space of Unicode.
\<close>

definition is_space :: "nat \<Rightarrow> bool" where
  "is_space c =
     (c \<in> set [0x9, 0xA, 0xB, 0xC, 0xD, 0x1C, 0x1D, 0x1E, 0x1F, 0x20, 0x85, 0xA0, 0x1680,
               0x2000, 0x2001, 0x2002, 0x2003, 0x2004, 0x2005, 0x2006, 0x2007, 0x2008,
               0x2009, 0x200A, 0x2028, 0x2029, 0x202F, 0x205F, 0x3000])"

text \<open>\<open>s.strip()\<close>\<close>

definition py_strip :: "ustring \<Rightarrow> ustring" where
  "py_strip s = rev (dropWhile is_space (rev (dropWhile is_space s)))"

text \<open>\<open>s.rstrip('/')\<close>\<close>

definition rstrip_slash :: "ustring \<Rightarrow> ustring" where
  "rstrip_slash s = rev (dropWhile (\<lambda>c. c = 0x2F) (rev s))"

text \<open>\<open>s.startswith(p)\<close>\<close>

definition startswith :: "ustring \<Rightarrow> ustring \<Rightarrow> bool" where
  "startswith s p = (take (length p) s = p)"

text \<open>\<open>sub in s\<close>\<close>

fun contains :: "ustring \<Rightarrow> ustring \<Rightarrow> bool" where
  "contains sub [] = (sub = [])"
| "contains sub (c # cs) = (startswith (c # cs) sub \<or> contains sub cs)"

text \<open>
  \<open>s.replace(old, new)\<close>: every occurrence of \<open>old\<close>, found from the left and without
  overlap.
\<close>

fun py_replace :: "ustring \<Rightarrow> ustring \<Rightarrow> ustring \<Rightarrow> ustring" where
  "py_replace old new [] = (if old = [] then new else [])"
| "py_replace old new (c # cs) =
     (if old = [] then new @ c # py_replace old new cs
      else if startswith (c # cs) old then new @ py_replace old new (drop (length old - 1) cs)
      else c # py_replace old new cs)"

text \<open>\<open>s.split(sep)\<close> for a separator of one character.\<close>

fun py_split :: "nat \<Rightarrow> ustring \<Rightarrow> ustring list" where
  "py_split sep [] = [[]]"
| "py_split sep (c # cs) =
     (if c = sep then [] # py_split sep cs
      else (let parts = py_split sep cs in (c # hd parts) # tl parts))"

text \<open>
  The class \<open>\d\<close> of a \<open>str\<close> pattern: the decimal digits of Unicode (category Nd, here of
  Unicode 14), which come in runs of ten that start at these code points.
\<close>

definition decimal_zeros :: "nat list" where
  "decimal_zeros =
     [0x30, 0x660, 0x6F0, 0x7C0, 0x966, 0x9E6, 0xA66, 0xAE6, 0xB66, 0xBE6, 0xC66, 0xCE6,
      0xD66, 0xDE6, 0xE50, 0xED0, 0xF20, 0x1040, 0x1090, 0x17E0, 0x1810, 0x1946, 0x19D0,
      0x1A80, 0x1A90, 0x1B50, 0x1BB0, 0x1C40, 0x1C50, 0xA620, 0xA8D0, 0xA900, 0xA9D0,
      0xA9F0, 0xAA50, 0xABF0, 0xFF10, 0x104A0, 0x10D30, 0x11066, 0x110F0, 0x11136,
      0x111D0, 0x112F0, 0x11450, 0x114D0, 0x11650, 0x116C0, 0x11730, 0x118E0, 0x11950,
      0x11C50, 0x11D50, 0x11DA0, 0x16A60, 0x16AC0, 0x16B50, 0x1D7CE, 0x1D7D8, 0x1D7E2,
      0x1D7EC, 0x1D7F6, 0x1E140, 0x1E2F0, 0x1E950, 0x1FBF0]"

definition is_decimal :: "nat \<Rightarrow> bool" where
  "is_decimal c = list_ex (\<lambda>z. z \<le> c \<and> c < z + 10) decimal_zeros"

text \<open>
  The pattern \<open>\d{1,2}:\d{2}\<close> at the head of a string: the length of the match, if
  any. The repetition is greedy, so two digits are tried before one.
\<close>

definition match_clock :: "ustring \<Rightarrow> nat option" where
  "match_clock s =
     (if 5 \<le> length s \<and> list_all is_decimal (take 2 s) \<and> s ! 2 = 0x3A
          \<and> list_all is_decimal (take 2 (drop 3 s)) then Some 5
      else if 4 \<le> length s \<and> is_decimal (s ! 0) \<and> s ! 1 = 0x3A
          \<and> list_all is_decimal (take 2 (drop 2 s)) then Some 4
      else None)"

text \<open>
  \<open>re.sub(r'\d{1,2}:\d{2}', '', s)\<close>: one pass from the left; after a match the scan
  goes on behind it.
\<close>

fun re_sub_clock :: "ustring \<Rightarrow> ustring" where
  "re_sub_clock [] = []"
| "re_sub_clock (c # cs) =
     (case match_clock (c # cs) of
        Some n \<Rightarrow> re_sub_clock (drop (n - 1) cs)
      | None \<Rightarrow> c # re_sub_clock cs)"

text \<open>\<open>str(v)\<close> as an f-string renders a field value.\<close>

fun py_str :: "jval \<Rightarrow> ustring" where
  "py_str JNull = U ''None''"
| "py_str (JStr s) = s"

text \<open>The truth value of an optional string: \<open>None\<close> and \<open>''\<close> are false.\<close>

fun truthy :: "ustring option \<Rightarrow> bool" where
  "truthy None = False"
| "truthy (Some s) = (s \<noteq> [])"

text \<open>A Python value that is a string or \<open>None\<close>, as a dictionary value.\<close>

fun jval_of :: "ustring option \<Rightarrow> jval" where
  "jval_of None = JNull"
| "jval_of (Some s) = JStr s"

section \<open>The outside world\<close>

text \<open>
  What the code asks of a parsed page (a \<open>BeautifulSoup\<close> object) is kept, not the markup.
  A competition entry of the Dacon listing, \<open>div.comp\<close>: the text of its status
  \<open>div.dday\<close>, of \<open>p.name.ellipsis\<close> and of \<open>p.info2.ellipsis.keyword\<close> (absent when the
  element is), the \<open>href\<close> of its first \<open>a\<close>, and the \<open>src\<close> and \<open>data-src\<close> of its first
  \<open>img\<close>.
\<close>

record comp_block =
  dday_text :: "ustring option"
  name_text :: "ustring option"
  keyword_text :: "ustring option"
  a_href :: "ustring option option"
  img_srcs :: "(ustring option \<times> ustring option) option"

text \<open>
  A page: its text nodes in document order, its \<open>div.comp\<close> entries, the \<open>content\<close> of
  its \<open>meta\<close> tag with property \<open>og:image\<close>, the \<open>src\<close> of \<open>img.competition-logo\<close> and of
  \<open>img.competition-header\<close> (outer \<open>None\<close>: no such element; inner \<open>None\<close>: no such
  attribute), and the \<open>data-src\<close> of the first \<open>img\<close> that has one.
\<close>

record soup =
  text_nodes :: "ustring list"
  comp_divs :: "comp_block list"
  og_image_content :: "ustring option option"
  logo_img_src :: "ustring option option"
  header_img_src :: "ustring option option"
  data_src_img :: "ustring option"

text \<open>
  A naive \<open>datetime\<close> is a reading of calendar and clock without a time zone, counted in
  microseconds from a fixed reading; the comparison of two of them is the comparison of these
  numbers, whatever zones the readings were taken in.
\<close>

type_synonym datetime = int

text \<open>
  An item of \<open>api.competitions_list()\<close>. An attribute that is \<open>None\<close> makes the code
  raise where it uses it.
\<close>

record kaggle_item =
  k_ref :: jval
  k_title :: jval
  k_description :: jval
  k_category :: jval
  k_reward :: jval
  k_deadline :: "datetime option"

text \<open>
  A Slack message: its fallback text and its blocks. The layout of the blocks is the
  sink's wire format and is not modelled: blocks are the blocks rendered from a record, or
  the fixed blocks of the message that says nothing is new.
\<close>

datatype blocks = CompetitionBlocks competition | NoCompetitionBlocks

datatype message = Message (msg_text: ustring) (msg_blocks: blocks)

text \<open>
  How a call of \<open>slack_client.chat_postMessage\<close> ends: a response that is ok, a response
  that is not, a \<open>SlackApiError\<close>, or another exception (a network failure).
\<close>

datatype post_outcome = PostOk | PostNotOk | PostSlackApiError | PostOtherError exn

text \<open>
  How the write of the data file in \<open>save_competition_data\<close> ends: \<open>json.dump\<close> completes;
  or \<open>os.makedirs\<close> or \<open>open\<close> raises, and the file is as it was; or \<open>open(DATA_FILE, 'w')\<close>
  has emptied the file and the writing raises before it is complete.
\<close>

datatype write_outcome = WriteDone | WriteNotOpened | WriteCutShort

text \<open>
  Everything outside the program that it calls: the Kaggle client, HTTP and HTML parsing,
  the library functions \<open>urljoin\<close>, \<open>strftime\<close> and \<open>strptime\<close> (with the format
  \<open>%Y-%m-%d %H:%M:%S UTC\<close>; \<open>None\<close> is its \<open>ValueError\<close>), the clock of the host, the file
  system, and the Slack client. The clock is the current instant as it reads in UTC
  together with what the zone of the host is ahead of UTC, in microseconds.
\<close>

record world =
  kaggle_authenticate :: "exn option"
  kaggle_competitions_list :: "exn + kaggle_item list"
  requests_get :: "ustring \<Rightarrow> exn + soup"
  urljoin :: "ustring \<Rightarrow> ustring option \<Rightarrow> ustring"
  utc_clock :: datetime
  utc_offset :: int
  strftime :: "datetime \<Rightarrow> ustring"
  strptime :: "ustring \<Rightarrow> datetime option"
  write_data_file :: "competition list \<Rightarrow> write_outcome"
  chat_postMessage :: "message \<Rightarrow> post_outcome"

text \<open>
  \<open>datetime.now()\<close>, called without a zone: the naive reading of the current instant in the
  zone of the host.
\<close>

definition datetime_now :: "world \<Rightarrow> datetime" where
  "datetime_now w = utc_clock w + utc_offset w"

section \<open>FieldExtractor: the schedule text\<close>

text \<open>The Korean label (competition period, then a colon) that is searched, as code points.\<close>

definition period_label :: ustring where
  "period_label = [0xB300, 0xD68C, 0x20, 0xAE30, 0xAC04, 0x20, 0x3A]"

text \<open>The prefix that is removed: a hyphen, a space, the label, a space.\<close>

definition period_prefix :: ustring where
  "period_prefix = [0x2D, 0x20, 0xB300, 0xD68C, 0x20, 0xAE30, 0xAC04, 0x20, 0x3A, 0x20]"

text \<open>The sentinel string, Korean for: period information cannot be found.\<close>

definition period_not_found :: ustring where
  "period_not_found =
     [0xAE30, 0xAC04, 0x20, 0xC815, 0xBCF4, 0xB97C, 0x20, 0xCC3E, 0xC744, 0x20, 0xC218, 0x20,
      0xC5C6, 0xC2B5, 0xB2C8, 0xB2E4, 0x2E]"

text \<open>\<open>lambda text: text and LABEL in text\<close>, with the label above.\<close>

definition has_period_label :: "ustring \<Rightarrow> bool" where
  "has_period_label text = (text \<noteq> [] \<and> contains period_label text)"

text \<open>\<open>soup.find(string=f)\<close>: the first text node that \<open>f\<close> accepts.\<close>

definition find_string :: "(ustring \<Rightarrow> bool) \<Rightarrow> soup \<Rightarrow> ustring option" where
  "find_string f page = List.find f (text_nodes page)"

text \<open>
  \<open>main.py\<close>, \<open>get_competition_period\<close>: first the \<open>try\<close> block, then the function with its
  handler, which returns \<open>None\<close>.
\<close>

definition main_get_competition_period_try :: "world \<Rightarrow> ustring \<Rightarrow> exn + ustring" where
  "main_get_competition_period_try w detail_url =
     (case requests_get w detail_url of
        Inl e \<Rightarrow> Inl e
      | Inr page \<Rightarrow>
          (case find_string has_period_label page of
             Some period_text \<Rightarrow>
               (if period_text \<noteq> [] then
                  (let period = py_strip (py_replace period_prefix [] period_text);
                       cleaned_period = re_sub_clock period;
                       parts = py_split 0x7E cleaned_period
                   in if length parts = 2
                      then Inr (py_strip (parts ! 0) @ U '' ~ '' @ py_strip (parts ! 1))
                      else Inr cleaned_period)
                else Inr period_not_found)
           | None \<Rightarrow> Inr period_not_found))"

definition main_get_competition_period :: "world \<Rightarrow> ustring \<Rightarrow> exn + ustring option" where
  "main_get_competition_period w detail_url =
     (case main_get_competition_period_try w detail_url of
        Inl e \<Rightarrow> Inr None
      | Inr period \<Rightarrow> Inr (Some period))"

text \<open>\<open>contest_noti_slackbot.py\<close>, \<open>get_competition_period\<close>\<close>

definition slackbot_get_competition_period_try :: "world \<Rightarrow> ustring \<Rightarrow> exn + ustring" where
  "slackbot_get_competition_period_try w detail_url =
     (case requests_get w detail_url of
        Inl e \<Rightarrow> Inl e
      | Inr page \<Rightarrow>
          (case find_string has_period_label page of
             Some period_text \<Rightarrow>
               (if period_text \<noteq> [] then Inr (py_strip (py_replace period_prefix [] period_text))
                else Inr period_not_found)
           | None \<Rightarrow> Inr period_not_found))"

definition slackbot_get_competition_period :: "world \<Rightarrow> ustring \<Rightarrow> exn + ustring option" where
  "slackbot_get_competition_period w detail_url =
     (case slackbot_get_competition_period_try w detail_url of
        Inl e \<Rightarrow> Inr None
      | Inr period \<Rightarrow> Inr (Some period))"

section \<open>SourceFetcher: Kaggle\<close>

text \<open>
  The normalisation of a reference into a URL, the same lines in both files:
  \<open>if comp.ref.startswith('http'): url = comp.ref\<close>, else the reference is prefixed.
\<close>

definition kaggle_url :: "ustring \<Rightarrow> ustring" where
  "kaggle_url ref =
     (if startswith ref (U ''http'') then ref
      else U ''https://www.kaggle.com/competitions/'' @ ref)"

text \<open>\<open>comp.ref.startswith\<close> raises \<open>AttributeError\<close> on \<open>None\<close>.\<close>

definition kaggle_item_url :: "kaggle_item \<Rightarrow> exn + ustring" where
  "kaggle_item_url item =
     (case k_ref item of JNull \<Rightarrow> Inl AttributeError | JStr ref \<Rightarrow> Inr (kaggle_url ref))"

text \<open>\<open>s.startswith(('http://', 'https://'))\<close>\<close>

definition is_absolute_url :: "ustring \<Rightarrow> bool" where
  "is_absolute_url s = (startswith s (U ''http://'') \<or> startswith s (U ''https://''))"

text \<open>
  \<open>main.py\<close>, the thumbnail of a Kaggle competition: the \<open>try\<close> block inside the loop.
  Four sources are tried in order; a relative URL is joined to the origin.
\<close>

definition main_kaggle_image_try :: "world \<Rightarrow> ustring \<Rightarrow> exn + ustring option" where
  "main_kaggle_image_try w url =
     (case requests_get w url of
        Inl e \<Rightarrow> Inl e
      | Inr page \<Rightarrow>
          (let image_url0 = None;
               image_url1 = (case og_image_content page of
                               Some content \<Rightarrow> if truthy content then content else image_url0
                             | None \<Rightarrow> image_url0);
               image_url2 = (if \<not> truthy image_url1
                             then (case logo_img_src page of
                                     Some src \<Rightarrow> if truthy src then src else image_url1
                                   | None \<Rightarrow> image_url1)
                             else image_url1);
               image_url3 = (if \<not> truthy image_url2
                             then (case header_img_src page of
                                     Some src \<Rightarrow> if truthy src then src else image_url2
                                   | None \<Rightarrow> image_url2)
                             else image_url2);
               image_url4 = (if \<not> truthy image_url3
                             then (case data_src_img page of
                                     Some d \<Rightarrow> Some d
                                   | None \<Rightarrow> image_url3)
                             else image_url3)
           in Inr (if truthy image_url4 \<and> \<not> is_absolute_url (the image_url4)
                   then Some (urljoin w (U ''https://www.kaggle.com'') image_url4)
                   else image_url4)))"

text \<open>Its handler: \<open>image_url = None\<close>.\<close>

definition main_kaggle_image :: "world \<Rightarrow> ustring \<Rightarrow> ustring option" where
  "main_kaggle_image w url =
     (case main_kaggle_image_try w url of Inl e \<Rightarrow> None | Inr image_url \<Rightarrow> image_url)"

text \<open>
  \<open>main.py\<close>, the loop of \<open>get_kaggle_competitions\<close>. \<open>comp.deadline > datetime.now()\<close>
  raises \<open>TypeError\<close> when the deadline is \<open>None\<close>.
\<close>

fun main_kaggle_loop :: "world \<Rightarrow> kaggle_item list \<Rightarrow> exn + competition list" where
  "main_kaggle_loop w [] = Inr []"
| "main_kaggle_loop w (item # items) =
     (case k_deadline item of
        None \<Rightarrow> Inl TypeError
      | Some deadline \<Rightarrow>
          if deadline > datetime_now w then
            (case kaggle_item_url item of
               Inl e \<Rightarrow> Inl e
             | Inr url \<Rightarrow>
                 (let image_url = main_kaggle_image w url;
                      record = [''platform'' \<mapsto> JStr (U ''Kaggle''),
                                ''name'' \<mapsto> k_title item,
                                ''description'' \<mapsto> k_description item,
                                ''url'' \<mapsto> JStr url,
                                ''deadline'' \<mapsto> JStr (strftime w deadline),
                                ''category'' \<mapsto> k_category item,
                                ''reward'' \<mapsto> JStr (U ''$'' @ py_str (k_reward item)),
                                ''image_url'' \<mapsto> jval_of image_url]
                  in case main_kaggle_loop w items of
                       Inl e \<Rightarrow> Inl e
                     | Inr rest \<Rightarrow> Inr (record # rest)))
          else main_kaggle_loop w items)"

text \<open>\<open>main.py\<close>, \<open>get_kaggle_competitions\<close>: the \<open>try\<close> block.\<close>

definition main_get_kaggle_competitions_try :: "world \<Rightarrow> exn + competition list" where
  "main_get_kaggle_competitions_try w =
     (case kaggle_authenticate w of
        Some e \<Rightarrow> Inl e
      | None \<Rightarrow>
          (case kaggle_competitions_list w of
             Inl e \<Rightarrow> Inl e
           | Inr competitions \<Rightarrow> main_kaggle_loop w competitions))"

text \<open>The function with its handler \<open>except Exception\<close>, which returns \<open>[]\<close>.\<close>

definition main_get_kaggle_competitions :: "world \<Rightarrow> exn + competition list" where
  "main_get_kaggle_competitions w =
     (case main_get_kaggle_competitions_try w of
        Inl e \<Rightarrow> Inr []
      | Inr competition_list \<Rightarrow> Inr competition_list)"

text \<open>\<open>contest_noti_slackbot.py\<close>, \<open>get_kaggle_competitions\<close>: no thumbnail.\<close>

fun slackbot_kaggle_loop :: "world \<Rightarrow> kaggle_item list \<Rightarrow> exn + competition list" where
  "slackbot_kaggle_loop w [] = Inr []"
| "slackbot_kaggle_loop w (item # items) =
     (case k_deadline item of
        None \<Rightarrow> Inl TypeError
      | Some deadline \<Rightarrow>
          if deadline > datetime_now w then
            (case kaggle_item_url item of
               Inl e \<Rightarrow> Inl e
             | Inr url \<Rightarrow>
                 (let record = [''platform'' \<mapsto> JStr (U ''Kaggle''),
                                ''name'' \<mapsto> k_title item,
                                ''description'' \<mapsto> k_description item,
                                ''url'' \<mapsto> JStr url,
                                ''deadline'' \<mapsto> JStr (strftime w deadline),
                                ''category'' \<mapsto> k_category item,
                                ''reward'' \<mapsto> JStr (U ''$'' @ py_str (k_reward item))]
                  in case slackbot_kaggle_loop w items of
                       Inl e \<Rightarrow> Inl e
                     | Inr rest \<Rightarrow> Inr (record # rest)))
          else slackbot_kaggle_loop w items)"

definition slackbot_get_kaggle_competitions_try :: "world \<Rightarrow> exn + competition list" where
  "slackbot_get_kaggle_competitions_try w =
     (case kaggle_authenticate w of
        Some e \<Rightarrow> Inl e
      | None \<Rightarrow>
          (case kaggle_competitions_list w of
             Inl e \<Rightarrow> Inl e
           | Inr competitions \<Rightarrow> slackbot_kaggle_loop w competitions))"

definition slackbot_get_kaggle_competitions :: "world \<Rightarrow> exn + competition list" where
  "slackbot_get_kaggle_competitions w =
     (case slackbot_get_kaggle_competitions_try w of
        Inl e \<Rightarrow> Inr []
      | Inr competition_list \<Rightarrow> Inr competition_list)"

section \<open>SourceFetcher: Dacon\<close>

definition dacon_base_url :: ustring where
  "dacon_base_url = U ''https://dacon.io''"

definition dacon_main_url :: ustring where
  "dacon_main_url = U ''https://dacon.io/competitions''"

text \<open>The status text of an entry that accepts participants (Korean), as code points.\<close>

definition dacon_open_status :: ustring where
  "dacon_open_status = [0xCC38, 0xAC00, 0xC2E0, 0xCCAD, 0xC911]"

text \<open>
  The thumbnail of an entry: \<open>img_tag.get('src') or img_tag.get('data-src')\<close>, joined to
  the origin when it is relative.
\<close>

definition dacon_image :: "world \<Rightarrow> comp_block \<Rightarrow> ustring option" where
  "dacon_image w entry =
     (case img_srcs entry of
        None \<Rightarrow> None
      | Some (src, data_src) \<Rightarrow>
          (let image_url = (if truthy src then src else data_src)
           in if truthy image_url \<and> \<not> is_absolute_url (the image_url)
              then Some (urljoin w dacon_base_url image_url)
              else image_url))"

text \<open>
  \<open>main.py\<close>, the body of the loop of \<open>get_dacon_competitions\<close>, which is a \<open>try\<close> block:
  \<open>None\<close> for an entry that is not open. \<open>.text\<close> of a missing element and \<open>.get\<close> of a
  missing link raise \<open>AttributeError\<close>.
\<close>

definition main_dacon_entry_try :: "world \<Rightarrow> comp_block \<Rightarrow> exn + competition option" where
  "main_dacon_entry_try w entry =
     (case dday_text entry of
        None \<Rightarrow> Inr None
      | Some status \<Rightarrow>
          if contains dacon_open_status status then
            (case name_text entry of
               None \<Rightarrow> Inl AttributeError
             | Some name_p \<Rightarrow>
                 (case keyword_text entry of
                    None \<Rightarrow> Inl AttributeError
                  | Some keyword_p \<Rightarrow>
                      (case a_href entry of
                         None \<Rightarrow> Inl AttributeError
                       | Some relative_link \<Rightarrow>
                           (let name = py_strip name_p;
                                keywords = py_strip keyword_p;
                                full_link = urljoin w dacon_base_url relative_link;
                                schedule_url = rstrip_slash full_link @ U ''/schedule''
                            in case main_get_competition_period w schedule_url of
                                 Inl e \<Rightarrow> Inl e
                               | Inr period \<Rightarrow>
                                   Inr (Some [''platform'' \<mapsto> JStr (U ''Dacon''),
                                              ''name'' \<mapsto> JStr name,
                                              ''keywords'' \<mapsto> JStr keywords,
                                              ''url'' \<mapsto> JStr full_link,
                                              ''period'' \<mapsto> jval_of period,
                                              ''image_url'' \<mapsto> jval_of (dacon_image w entry)])))))
          else Inr None)"

text \<open>The loop: the handler of an entry logs and goes on to the next entry.\<close>

fun main_dacon_loop :: "world \<Rightarrow> comp_block list \<Rightarrow> competition list" where
  "main_dacon_loop w [] = []"
| "main_dacon_loop w (entry # entries) =
     (case main_dacon_entry_try w entry of
        Inl e \<Rightarrow> main_dacon_loop w entries
      | Inr None \<Rightarrow> main_dacon_loop w entries
      | Inr (Some competition_info) \<Rightarrow> competition_info # main_dacon_loop w entries)"

definition main_get_dacon_competitions_try :: "world \<Rightarrow> exn + competition list" where
  "main_get_dacon_competitions_try w =
     (case requests_get w dacon_main_url of
        Inl e \<Rightarrow> Inl e
      | Inr page \<Rightarrow> Inr (main_dacon_loop w (comp_divs page)))"

definition main_get_dacon_competitions :: "world \<Rightarrow> exn + competition list" where
  "main_get_dacon_competitions w =
     (case main_get_dacon_competitions_try w of
        Inl e \<Rightarrow> Inr []
      | Inr active_competitions \<Rightarrow> Inr active_competitions)"

text \<open>
  \<open>contest_noti_slackbot.py\<close>, \<open>get_dacon_competitions\<close>: no thumbnail, and no handler
  inside the loop, so an entry that raises ends the whole fetch.
\<close>

fun slackbot_dacon_loop :: "world \<Rightarrow> comp_block list \<Rightarrow> exn + competition list" where
  "slackbot_dacon_loop w [] = Inr []"
| "slackbot_dacon_loop w (entry # entries) =
     (case dday_text entry of
        None \<Rightarrow> slackbot_dacon_loop w entries
      | Some status \<Rightarrow>
          if contains dacon_open_status status then
            (case name_text entry of
               None \<Rightarrow> Inl AttributeError
             | Some name_p \<Rightarrow>
                 (case keyword_text entry of
                    None \<Rightarrow> Inl AttributeError
                  | Some keyword_p \<Rightarrow>
                      (case a_href entry of
                         None \<Rightarrow> Inl AttributeError
                       | Some relative_link \<Rightarrow>
                           (let name = py_strip name_p;
                                keywords = py_strip keyword_p;
                                full_link = urljoin w dacon_base_url relative_link;
                                schedule_url = rstrip_slash full_link @ U ''/schedule''
                            in case slackbot_get_competition_period w schedule_url of
                                 Inl e \<Rightarrow> Inl e
                               | Inr period \<Rightarrow>
                                   (case slackbot_dacon_loop w entries of
                                      Inl e \<Rightarrow> Inl e
                                    | Inr rest \<Rightarrow>
                                        Inr ([''platform'' \<mapsto> JStr (U ''Dacon''),
                                              ''name'' \<mapsto> JStr name,
                                              ''keywords'' \<mapsto> JStr keywords,
                                              ''url'' \<mapsto> JStr full_link,
                                              ''period'' \<mapsto> jval_of period] # rest))))))
          else slackbot_dacon_loop w entries)"

definition slackbot_get_dacon_competitions_try :: "world \<Rightarrow> exn + competition list" where
  "slackbot_get_dacon_competitions_try w =
     (case requests_get w dacon_main_url of
        Inl e \<Rightarrow> Inl e
      | Inr page \<Rightarrow> slackbot_dacon_loop w (comp_divs page))"

definition slackbot_get_dacon_competitions :: "world \<Rightarrow> exn + competition list" where
  "slackbot_get_dacon_competitions w =
     (case slackbot_get_dacon_competitions_try w of
        Inl e \<Rightarrow> Inr []
      | Inr active_competitions \<Rightarrow> Inr active_competitions)"

section \<open>StateStore\<close>

text \<open>
  The data file: missing, unreadable as JSON, or holding a list of records. What the
  program does to the outside is kept as a trace of events, in order: a call of
  \<open>save_competition_data\<close> with the list to write, and a call of \<open>chat_postMessage\<close>.
\<close>

datatype file_state = Missing | Corrupt | Stored "competition list"

datatype event = Saved "competition list" | Posted message

record state =
  data_file :: file_state
  trace :: "event list"

text \<open>
  \<open>load_competition_data\<close> (both files): a missing file and a file that cannot be read
  give the empty list.
\<close>

definition load_competition_data :: "state \<Rightarrow> competition list" where
  "load_competition_data s =
     (case data_file s of Missing \<Rightarrow> [] | Corrupt \<Rightarrow> [] | Stored data \<Rightarrow> data)"

text \<open>
  \<open>save_competition_data\<close> (both files): the \<open>try\<close> block writes the file as a whole, and
  the handler \<open>except Exception\<close> only logs, so the function always returns. A write that
  completes leaves the list in the file; when the file could not be opened it is as it was;
  a write that was cut short leaves a file that is empty or ends in the middle of the list,
  which \<open>json.load\<close> cannot read.
\<close>

definition save_competition_data :: "world \<Rightarrow> competition list \<Rightarrow> state \<Rightarrow> state" where
  "save_competition_data w data s =
     s\<lparr>data_file := (case write_data_file w data of
                       WriteDone \<Rightarrow> Stored data
                     | WriteNotOpened \<Rightarrow> data_file s
                     | WriteCutShort \<Rightarrow> Corrupt),
       trace := trace s @ [Saved data]\<rparr>"

section \<open>Notifier\<close>

text \<open>
  \<open>contest_noti_slackbot.py\<close>, \<open>format_slack_message\<close>: the header needs \<open>platform\<close> and
  \<open>name\<close>; for a Kaggle record \<open>competition.get('description', ...)[:300]\<close> raises
  \<open>TypeError\<close> when the description is \<open>None\<close>.
\<close>

definition slackbot_format_slack_message :: "competition \<Rightarrow> exn + blocks" where
  "slackbot_format_slack_message competition =
     (case getitem competition ''platform'' of
        Inl e \<Rightarrow> Inl e
      | Inr platform \<Rightarrow>
          (case getitem competition ''name'' of
             Inl e \<Rightarrow> Inl e
           | Inr name \<Rightarrow>
               if platform = JStr (U ''Kaggle'') \<and> competition ''description'' = Some JNull
               then Inl TypeError
               else Inr (CompetitionBlocks competition)))"

text \<open>The pieces of its fallback text (Korean), as code points.\<close>

definition new_competition_text :: "jval \<Rightarrow> jval \<Rightarrow> ustring" where
  "new_competition_text platform name =
     [0xC0C8, 0xB85C, 0xC6B4, 0x20] @ py_str platform @ [0x20, 0xB300, 0xD68C, 0x3A, 0x20]
       @ py_str name"

text \<open>
  \<open>contest_noti_slackbot.py\<close>, \<open>send_slack_notification\<close>: only \<open>SlackApiError\<close> is caught.
\<close>

definition slackbot_send_slack_notification ::
  "world \<Rightarrow> competition \<Rightarrow> state \<Rightarrow> (exn + bool) \<times> state" where
  "slackbot_send_slack_notification w competition s =
     (case slackbot_format_slack_message competition of
        Inl e \<Rightarrow> (Inl e, s)
      | Inr message \<Rightarrow>
          (let m = Message (new_competition_text (the (competition ''platform''))
                              (the (competition ''name''))) message;
               s' = s\<lparr>trace := trace s @ [Posted m]\<rparr>
           in case chat_postMessage w m of
                PostOk \<Rightarrow> (Inr True, s')
              | PostNotOk \<Rightarrow> (Inr True, s')
              | PostSlackApiError \<Rightarrow> (Inr False, s')
              | PostOtherError e \<Rightarrow> (Inl e, s')))"

text \<open>
  The message of \<open>send_no_competition_notification\<close>: its fallback text (Korean for: there
  are no new competitions) and its fixed blocks.
\<close>

definition no_competition_message :: message where
  "no_competition_message =
     Message [0xC0C8, 0xB85C, 0xC6B4, 0x20, 0xB300, 0xD68C, 0xAC00, 0x20, 0xC5C6, 0xC2B5,
              0xB2C8, 0xB2E4, 0x2E] NoCompetitionBlocks"

text \<open>\<open>contest_noti_slackbot.py\<close>, \<open>send_no_competition_notification\<close>\<close>

definition send_no_competition_notification :: "world \<Rightarrow> state \<Rightarrow> (exn + bool) \<times> state" where
  "send_no_competition_notification w s =
     (let s' = s\<lparr>trace := trace s @ [Posted no_competition_message]\<rparr>
      in case chat_postMessage w no_competition_message of
           PostOk \<Rightarrow> (Inr True, s')
         | PostNotOk \<Rightarrow> (Inr True, s')
         | PostSlackApiError \<Rightarrow> (Inr False, s')
         | PostOtherError e \<Rightarrow> (Inl e, s'))"

text \<open>
  \<open>main.py\<close>, \<open>format_slack_message\<close>: it needs \<open>platform\<close>, \<open>url\<close> and \<open>name\<close>; for a
  Kaggle record \<open>competition.get('description', '')[:100]\<close> raises \<open>TypeError\<close> when the
  description is \<open>None\<close>.
\<close>

definition main_format_slack_message :: "competition \<Rightarrow> exn + blocks" where
  "main_format_slack_message competition =
     (case getitem competition ''platform'' of
        Inl e \<Rightarrow> Inl e
      | Inr platform \<Rightarrow>
          (case getitem competition ''url'' of
             Inl e \<Rightarrow> Inl e
           | Inr url \<Rightarrow>
               (case getitem competition ''name'' of
                  Inl e \<Rightarrow> Inl e
                | Inr name \<Rightarrow>
                    if platform = JStr (U ''Kaggle'') \<and> competition ''description'' = Some JNull
                    then Inl TypeError
                    else Inr (CompetitionBlocks competition))))"

text \<open>
  \<open>main.py\<close>, \<open>send_slack_notification\<close>: every exception is caught and logged; nothing
  is returned.
\<close>

definition main_send_slack_notification ::
  "world \<Rightarrow> competition \<Rightarrow> state \<Rightarrow> (exn + unit) \<times> state" where
  "main_send_slack_notification w competition s =
     (case main_format_slack_message competition of
        Inl e \<Rightarrow> (Inr (), s)
      | Inr blocks \<Rightarrow>
          (let m = Message (U ''New competition: '' @ py_str (the (competition ''name''))) blocks;
               s' = s\<lparr>trace := trace s @ [Posted m]\<rparr>
           in case chat_postMessage w m of
                PostOk \<Rightarrow> (Inr (), s')
              | PostNotOk \<Rightarrow> (Inr (), s')
              | PostSlackApiError \<Rightarrow> (Inr (), s')
              | PostOtherError e \<Rightarrow> (Inr (), s')))"

section \<open>Orchestrator\<close>

text \<open>
  \<open>contest_noti_slackbot.py\<close>, the loop \<open>for comp in new_competitions:
  send_slack_notification(comp)\<close>: an exception that the sender lets through ends it.
\<close>

fun slackbot_notify_each :: "world \<Rightarrow> competition list \<Rightarrow> state \<Rightarrow> (exn + unit) \<times> state" where
  "slackbot_notify_each w [] s = (Inr (), s)"
| "slackbot_notify_each w (c # cs) s =
     (case slackbot_send_slack_notification w c s of
        (Inl e, s') \<Rightarrow> (Inl e, s')
      | (Inr sent, s') \<Rightarrow> slackbot_notify_each w cs s')"

text \<open>
  \<open>contest_noti_slackbot.py\<close>, \<open>check_new_competitions\<close>: load, fetch, diff, save, then
  notify. There is no \<open>try\<close> around it.
\<close>

definition slackbot_check_new_competitions :: "world \<Rightarrow> state \<Rightarrow> (exn + unit) \<times> state" where
  "slackbot_check_new_competitions w s =
     (let previous_competitions = load_competition_data s
      in case slackbot_get_kaggle_competitions w of
           Inl e \<Rightarrow> (Inl e, s)
         | Inr current_kaggle \<Rightarrow>
             (case slackbot_get_dacon_competitions w of
                Inl e \<Rightarrow> (Inl e, s)
              | Inr current_dacon \<Rightarrow>
                  (let current_competitions = current_kaggle @ current_dacon
                   in case find_new_competitions current_competitions previous_competitions of
                        Inl e \<Rightarrow> (Inl e, s)
                      | Inr new_competitions \<Rightarrow>
                          (let s1 = save_competition_data w current_competitions s
                           in if new_competitions \<noteq> []
                              then slackbot_notify_each w new_competitions s1
                              else (case send_no_competition_notification w s1 of
                                      (Inl e, s2) \<Rightarrow> (Inl e, s2)
                                    | (Inr sent, s2) \<Rightarrow> (Inr (), s2))))))"

text \<open>\<open>main.py\<close>, the loop over the new competitions.\<close>

fun main_notify_each :: "world \<Rightarrow> competition list \<Rightarrow> state \<Rightarrow> (exn + unit) \<times> state" where
  "main_notify_each w [] s = (Inr (), s)"
| "main_notify_each w (c # cs) s =
     (case main_send_slack_notification w c s of
        (Inl e, s') \<Rightarrow> (Inl e, s')
      | (Inr u, s') \<Rightarrow> main_notify_each w cs s')"

text \<open>
  \<open>main.py\<close>, \<open>check_new_competitions\<close>, the \<open>try\<close> block: load, fetch, return when
  nothing was fetched, diff, notify, then save.
\<close>

definition main_check_new_competitions_try :: "world \<Rightarrow> state \<Rightarrow> (exn + unit) \<times> state" where
  "main_check_new_competitions_try w s =
     (let saved_competitions = load_competition_data s
      in case main_get_kaggle_competitions w of
           Inl e \<Rightarrow> (Inl e, s)
         | Inr kaggle \<Rightarrow>
             (case main_get_dacon_competitions w of
                Inl e \<Rightarrow> (Inl e, s)
              | Inr dacon \<Rightarrow>
                  (let current_competitions = [] @ kaggle @ dacon
                   in if current_competitions = [] then (Inr (), s)
                      else (case get_new_competitions current_competitions saved_competitions of
                              Inl e \<Rightarrow> (Inl e, s)
                            | Inr new_competitions \<Rightarrow>
                                (case main_notify_each w new_competitions s of
                                   (Inl e, s1) \<Rightarrow> (Inl e, s1)
                                 | (Inr u, s1) \<Rightarrow>
                                     (Inr (), save_competition_data w current_competitions s1))))))"

text \<open>The function with its handler, which logs.\<close>

definition main_check_new_competitions :: "world \<Rightarrow> state \<Rightarrow> (exn + unit) \<times> state" where
  "main_check_new_competitions w s =
     (case main_check_new_competitions_try w s of
        (Inl e, s') \<Rightarrow> (Inr (), s')
      | (Inr u, s') \<Rightarrow> (Inr (), s'))"

section \<open>Retention\<close>

text \<open>
  \<open>main.py\<close>, the loop of \<open>clean_competition_data\<close>. \<open>comp['platform']\<close> and
  \<open>comp['deadline']\<close> raise \<open>KeyError\<close> when missing; \<open>strptime\<close> raises \<open>TypeError\<close> on
  \<open>None\<close> and \<open>ValueError\<close> on a string that does not have the format.
\<close>

fun main_clean_loop :: "world \<Rightarrow> datetime \<Rightarrow> competition list \<Rightarrow> exn + competition list" where
  "main_clean_loop w current_time [] = Inr []"
| "main_clean_loop w current_time (c # cs) =
     (case getitem c ''platform'' of
        Inl e \<Rightarrow> Inl e
      | Inr platform \<Rightarrow>
          if platform = JStr (U ''Kaggle'') then
            (case getitem c ''deadline'' of
               Inl e \<Rightarrow> Inl e
             | Inr JNull \<Rightarrow> Inl TypeError
             | Inr (JStr d) \<Rightarrow>
                 (case strptime w d of
                    None \<Rightarrow> Inl ValueError
                  | Some deadline \<Rightarrow>
                      (case main_clean_loop w current_time cs of
                         Inl e \<Rightarrow> Inl e
                       | Inr cleaned \<Rightarrow>
                           Inr (if deadline > current_time then c # cleaned else cleaned))))
          else (case main_clean_loop w current_time cs of
                  Inl e \<Rightarrow> Inl e
                | Inr cleaned \<Rightarrow> Inr (c # cleaned)))"

text \<open>
  \<open>main.py\<close>, \<open>clean_competition_data\<close>: nothing is done for an empty list; the save
  follows the loop, and the handler only logs.
\<close>

definition main_clean_competition_data :: "world \<Rightarrow> state \<Rightarrow> (exn + unit) \<times> state" where
  "main_clean_competition_data w s =
     (let competitions = load_competition_data s
      in if competitions = [] then (Inr (), s)
         else (case main_clean_loop w (datetime_now w) competitions of
                 Inl e \<Rightarrow> (Inr (), s)
               | Inr cleaned_competitions \<Rightarrow>
                   (Inr (), save_competition_data w cleaned_competitions s)))"

section \<open>Notions of the specification\<close>

text \<open>
  The specification's words "begins with a scheme", after RFC 3986: a letter, then
  letters, digits, plus, hyphen or period, then a colon.
\<close>

definition is_alpha :: "nat \<Rightarrow> bool" where
  "is_alpha c = ((0x41 \<le> c \<and> c \<le> 0x5A) \<or> (0x61 \<le> c \<and> c \<le> 0x7A))"

definition is_scheme_char :: "nat \<Rightarrow> bool" where
  "is_scheme_char c =
     (is_alpha c \<or> (0x30 \<le> c \<and> c \<le> 0x39) \<or> c = 0x2B \<or> c = 0x2D \<or> c = 0x2E)"

definition begins_with_scheme :: "ustring \<Rightarrow> bool" where
  "begins_with_scheme s =
     (case s of
        [] \<Rightarrow> False
      | c # cs \<Rightarrow> is_alpha c \<and> (case dropWhile is_scheme_char cs of
                                   [] \<Rightarrow> False
                                 | d # ds \<Rightarrow> d = 0x3A))"

text \<open>
  The schedule text in the specification's words. A clock time is one or two decimal
  digits, a colon, and two decimal digits.
\<close>

definition clock_time :: "ustring \<Rightarrow> bool" where
  "clock_time s =
     list_ex (\<lambda>n. length s = n + 3 \<and> list_all is_decimal (take n s) \<and> s ! n = 0x3A
                  \<and> list_all is_decimal (drop (n + 1) s)) [1, 2]"

text \<open>
  A text with its embedded clock times removed: read from the left, a clock time that
  begins at a place is left out, the longer one when two begin there, and the reading goes
  on behind it.
\<close>

fun without_clock_times :: "ustring \<Rightarrow> ustring" where
  "without_clock_times [] = []"
| "without_clock_times (c # cs) =
     (if clock_time (take 5 (c # cs)) then without_clock_times (drop 4 cs)
      else if clock_time (take 4 (c # cs)) then without_clock_times (drop 3 cs)
      else c # without_clock_times cs)"

text \<open>
  What the specification makes of the text behind the label prefix: surrounding white
  space is stripped and clock times are removed; when the remainder holds exactly one tilde,
  so that it splits into exactly two parts, the parts are stripped and joined again with a
  single space on each side of the tilde; otherwise the remainder is the result.
\<close>

definition schedule_text :: "ustring \<Rightarrow> ustring" where
  "schedule_text body =
     (let cleaned = without_clock_times (py_strip body)
      in if count_list cleaned 0x7E = 1
         then py_strip (takeWhile (\<lambda>x. x \<noteq> 0x7E) cleaned) @ U '' ~ ''
                @ py_strip (tl (dropWhile (\<lambda>x. x \<noteq> 0x7E) cleaned))
         else cleaned)"

text \<open>
  Retention in the specification's words. A record is of the platform with an absolute
  deadline when its \<open>platform\<close> is \<open>Kaggle\<close>; its deadline is what \<open>strptime\<close> reads from a
  string under \<open>deadline\<close>. The fetcher writes that string from the \<open>datetime\<close> of the Kaggle
  client and labels it \<open>UTC\<close>, and the format of \<open>strptime\<close> asks for the same label: the
  deadline is a reading in UTC.
\<close>

definition is_kaggle :: "competition \<Rightarrow> bool" where
  "is_kaggle c = (c ''platform'' = Some (JStr (U ''Kaggle'')))"

definition parsed_deadline :: "world \<Rightarrow> competition \<Rightarrow> datetime option" where
  "parsed_deadline w c = (case c ''deadline'' of Some (JStr d) \<Rightarrow> strptime w d | _ \<Rightarrow> None)"

text \<open>
  A record of the data model: it names its platform, and a Kaggle record has a deadline
  that can be read.
\<close>

definition well_formed_record :: "world \<Rightarrow> competition \<Rightarrow> bool" where
  "well_formed_record w c =
     (c ''platform'' \<noteq> None \<and> (is_kaggle c \<longrightarrow> parsed_deadline w c \<noteq> None))"

text \<open>A Kaggle record whose deadline is missing or cannot be read.\<close>

definition bad_deadline :: "world \<Rightarrow> competition \<Rightarrow> bool" where
  "bad_deadline w c = (is_kaggle c \<and> parsed_deadline w c = None)"

text \<open>
  A record passes the test of a deadline against a reading \<open>t\<close> of the clock: a record with
  a deadline when the deadline is strictly greater than \<open>t\<close>, any other record always.
\<close>

definition kept_at :: "world \<Rightarrow> datetime \<Rightarrow> competition \<Rightarrow> bool" where
  "kept_at w t c =
     (if is_kaggle c
      then (case parsed_deadline w c of Some deadline \<Rightarrow> deadline > t | None \<Rightarrow> False)
      else True)"

text \<open>
  The rule of retention: a record with a deadline is kept when the deadline is strictly
  after the current instant; any other record is kept. The deadline is a reading in UTC,
  so it is after the current instant when it is greater than the reading of the current
  instant in UTC.
\<close>

definition retained :: "world \<Rightarrow> competition \<Rightarrow> bool" where
  "retained w c = kept_at w (utc_clock w) c"

text \<open>A record carries an identity when the key \<open>url\<close> is present.\<close>

definition has_url :: "competition \<Rightarrow> bool" where
  "has_url c = (c ''url'' \<noteq> None)"

text \<open>The identity of a record that has one.\<close>

definition url_of :: "competition \<Rightarrow> jval" where
  "url_of c = the (c ''url'')"

text \<open>
  What a cycle fetches: the lists of the two fetchers, one after the other. The fetchers
  always return a list (see the properties below), so the other branch is never taken.
\<close>

definition main_current :: "world \<Rightarrow> competition list" where
  "main_current w =
     (case main_get_kaggle_competitions w of Inl e \<Rightarrow> [] | Inr kaggle \<Rightarrow> kaggle)
     @ (case main_get_dacon_competitions w of Inl e \<Rightarrow> [] | Inr dacon \<Rightarrow> dacon)"

definition slackbot_current :: "world \<Rightarrow> competition list" where
  "slackbot_current w =
     (case slackbot_get_kaggle_competitions w of Inl e \<Rightarrow> [] | Inr kaggle \<Rightarrow> kaggle)
     @ (case slackbot_get_dacon_competitions w of Inl e \<Rightarrow> [] | Inr dacon \<Rightarrow> dacon)"

text \<open>The records of \<open>current\<close> that are new with respect to \<open>previous\<close>.\<close>

definition new_records :: "competition list \<Rightarrow> competition list \<Rightarrow> competition list" where
  "new_records current previous = filter (\<lambda>c. url_of c \<notin> url_of ` set previous) current"

text \<open>
  The message that \<open>send_slack_notification\<close> posts for a record, in \<open>main.py\<close> and in
  \<open>contest_noti_slackbot.py\<close>.
\<close>

definition main_message :: "competition \<Rightarrow> message" where
  "main_message c =
     Message (U ''New competition: '' @ py_str (the (c ''name''))) (CompetitionBlocks c)"

definition slackbot_message :: "competition \<Rightarrow> message" where
  "slackbot_message c =
     Message (new_competition_text (the (c ''platform'')) (the (c ''name'')))
       (CompetitionBlocks c)"

text \<open>
  In \<open>main.py\<close> a record is posted when \<open>format_slack_message\<close> renders it. In
  \<open>contest_noti_slackbot.py\<close> a notification goes through when the record is rendered and
  the call to Slack raises nothing but \<open>SlackApiError\<close>.
\<close>

definition main_renders :: "competition \<Rightarrow> bool" where
  "main_renders c = (case main_format_slack_message c of Inl e \<Rightarrow> False | Inr b \<Rightarrow> True)"

definition slackbot_deliverable :: "world \<Rightarrow> competition \<Rightarrow> bool" where
  "slackbot_deliverable w c =
     ((case slackbot_format_slack_message c of Inl e \<Rightarrow> False | Inr b \<Rightarrow> True)
      \<and> (case chat_postMessage w (slackbot_message c) of PostOtherError e \<Rightarrow> False | _ \<Rightarrow> True))"

section \<open>Scenarios\<close>

text \<open>
  A world in which every source fails, the host keeps UTC, every write completes and Slack
  accepts every message; the other scenarios change single fields of it.
\<close>

definition offline_world :: world where
  "offline_world =
     \<lparr>kaggle_authenticate = Some OtherError,
      kaggle_competitions_list = Inl OtherError,
      requests_get = (\<lambda>url. Inl RequestException),
      urljoin = (\<lambda>base url. case url of None \<Rightarrow> base | Some r \<Rightarrow> base @ r),
      utc_clock = 0,
      utc_offset = 0,
      strftime = (\<lambda>t. U ''2030-01-01 00:00:01 UTC''),
      strptime = (\<lambda>s. None),
      write_data_file = (\<lambda>data. WriteDone),
      chat_postMessage = (\<lambda>m. PostOk)\<rparr>"

text \<open>A page without competition entries, with the given text nodes.\<close>

definition text_page :: "ustring list \<Rightarrow> soup" where
  "text_page nodes =
     \<lparr>text_nodes = nodes, comp_divs = [], og_image_content = None, logo_img_src = None,
      header_img_src = None, data_src_img = None\<rparr>"

text \<open>The text node of the specification's example.\<close>

definition example_period_text :: ustring where
  "example_period_text = period_prefix @ U ''2024.01.01 10:00 ~ 2024.01.31 18:00''"

text \<open>
  A world for retention: the current instant reads \<open>2030-01-01 00:00:00\<close> in UTC, which is
  the origin of the count, and \<open>strptime\<close> reads three deadlines, one second after the
  current instant, at it, and one second before it. The host keeps UTC.
\<close>

definition retention_world :: world where
  "retention_world = offline_world
     \<lparr>strptime := (\<lambda>s. if s = U ''2030-01-01 00:00:01 UTC'' then Some 1000000
                        else if s = U ''2030-01-01 00:00:00 UTC'' then Some 0
                        else if s = U ''2029-12-31 23:59:59 UTC'' then Some (- 1000000)
                        else None)\<rparr>"

text \<open>
  The same instant on a host in the zone \<open>Asia/Seoul\<close>, nine hours ahead of UTC, and on a
  host in the zone \<open>America/Los_Angeles\<close>, eight hours behind.
\<close>

definition seoul_world :: world where
  "seoul_world = retention_world\<lparr>utc_offset := 9 * 3600 * 1000000\<rparr>"

definition los_angeles_world :: world where
  "los_angeles_world = retention_world\<lparr>utc_offset := - (8 * 3600 * 1000000)\<rparr>"

definition kaggle_record :: "ustring \<Rightarrow> ustring \<Rightarrow> competition" where
  "kaggle_record url deadline =
     [''platform'' \<mapsto> JStr (U ''Kaggle''), ''url'' \<mapsto> JStr url, ''deadline'' \<mapsto> JStr deadline]"

definition dacon_record :: "ustring \<Rightarrow> competition" where
  "dacon_record url =
     [''platform'' \<mapsto> JStr (U ''Dacon''), ''url'' \<mapsto> JStr url, ''period'' \<mapsto> JNull]"

text \<open>
  A world in which the Kaggle client lists one open competition, and the records that the
  two Kaggle fetchers make of it (fetching its page fails, so there is no thumbnail).
\<close>

definition titanic_item :: kaggle_item where
  "titanic_item =
     \<lparr>k_ref = JStr (U ''titanic''), k_title = JStr (U ''Titanic''),
      k_description = JStr (U ''Predict survival''), k_category = JStr (U ''Getting Started''),
      k_reward = JStr (U ''Knowledge''), k_deadline = Some 1000000\<rparr>"

definition kaggle_world :: world where
  "kaggle_world =
     offline_world\<lparr>kaggle_authenticate := None, kaggle_competitions_list := Inr [titanic_item]\<rparr>"

text \<open>A world in which every source fails and the data file cannot be opened for writing.\<close>

definition read_only_world :: world where
  "read_only_world = offline_world\<lparr>write_data_file := \<lambda>data. WriteNotOpened\<rparr>"

definition slackbot_titanic_record :: competition where
  "slackbot_titanic_record =
     [''platform'' \<mapsto> JStr (U ''Kaggle''),
      ''name'' \<mapsto> JStr (U ''Titanic''),
      ''description'' \<mapsto> JStr (U ''Predict survival''),
      ''url'' \<mapsto> JStr (U ''https://www.kaggle.com/competitions/titanic''),
      ''deadline'' \<mapsto> JStr (U ''2030-01-01 00:00:01 UTC''),
      ''category'' \<mapsto> JStr (U ''Getting Started''),
      ''reward'' \<mapsto> JStr (U ''$Knowledge'')]"

definition main_titanic_record :: competition where
  "main_titanic_record = slackbot_titanic_record(''image_url'' \<mapsto> JNull)"

section \<open>Properties of the DiffEngine\<close>

lemma url_set_has_url:
  "list_all has_url cs \<Longrightarrow> url_set cs = Inr (url_of ` set cs)"
  by (induction cs) (auto simp: getitem_def has_url_def url_of_def)

lemma url_set_KeyError:
  "\<not> list_all has_url cs \<Longrightarrow> url_set cs = Inl KeyError"
  by (induction cs) (auto simp: getitem_def has_url_def split: sum.splits option.splits)

lemma comps_with_url_in_filter:
  "list_all has_url cs \<Longrightarrow>
   comps_with_url_in us cs = Inr (filter (\<lambda>c. url_of c \<in> us) cs)"
  by (induction cs) (auto simp: getitem_def has_url_def url_of_def)

lemma filter_new_urls:
  "filter (\<lambda>c. url_of c \<in> url_of ` set cur \<and> url_of c \<notin> P) cur =
   filter (\<lambda>c. url_of c \<notin> P) cur"
  by (rule filter_cong) auto

lemma get_new_competitions_filter:
  assumes "list_all has_url current" and "list_all has_url previous"
  shows "get_new_competitions current previous =
         Inr (filter (\<lambda>c. url_of c \<notin> url_of ` set previous) current)"
  using assms
  by (simp add: get_new_competitions_def url_set_has_url comps_with_url_in_filter
      filter_new_urls)

lemma find_new_competitions_filter:
  assumes "list_all has_url current" and "list_all has_url previous"
  shows "find_new_competitions current previous =
         Inr (filter (\<lambda>c. url_of c \<notin> url_of ` set previous) current)"
  using assms
  by (simp add: find_new_competitions_def url_set_has_url comps_with_url_in_filter
      filter_new_urls)

lemma get_new_competitions_KeyError:
  "\<not> (list_all has_url current \<and> list_all has_url previous) \<Longrightarrow>
   get_new_competitions current previous = Inl KeyError"
  by (cases "list_all has_url previous"; cases "list_all has_url current")
    (simp_all add: get_new_competitions_def url_set_KeyError url_set_has_url)

lemma find_new_competitions_KeyError:
  "\<not> (list_all has_url current \<and> list_all has_url previous) \<Longrightarrow>
   find_new_competitions current previous = Inl KeyError"
  by (cases "list_all has_url previous"; cases "list_all has_url current")
    (simp_all add: find_new_competitions_def url_set_KeyError url_set_has_url)

text \<open>
  Claim C1. For sequences \<open>current\<close> and \<open>previous\<close> of records that carry a \<open>url\<close>, both
  diff functions return exactly the records of \<open>current\<close> whose url is not among the urls
  of \<open>previous\<close>, in the order of \<open>current\<close>: every returned record has a url absent from
  \<open>previous\<close>, and no record of \<open>current\<close> whose url is in \<open>previous\<close> is returned.
\<close>

theorem diff_returns_new_records_in_order:
  assumes "list_all has_url current" and "list_all has_url previous"
  shows "\<exists>new. get_new_competitions current previous = Inr new
           \<and> find_new_competitions current previous = Inr new
           \<and> new = filter (\<lambda>c. url_of c \<notin> url_of ` set previous) current
           \<and> (\<forall>c \<in> set new. c \<in> set current \<and> url_of c \<notin> url_of ` set previous)
           \<and> (\<forall>c \<in> set current. url_of c \<in> url_of ` set previous \<longrightarrow> c \<notin> set new)"
  using assms
  by (simp add: get_new_competitions_filter find_new_competitions_filter)

theorem diff_returns_new_records_in_order_witness:
  "get_new_competitions
     [[''url'' \<mapsto> JStr (U ''https://x/a'')], [''url'' \<mapsto> JStr (U ''https://x/b'')],
      [''url'' \<mapsto> JStr (U ''https://x/c'')]]
     [[''url'' \<mapsto> JStr (U ''https://x/b'')]]
   = Inr [[''url'' \<mapsto> JStr (U ''https://x/a'')], [''url'' \<mapsto> JStr (U ''https://x/c'')]]
   \<and> find_new_competitions
     [[''url'' \<mapsto> JStr (U ''https://x/a'')], [''url'' \<mapsto> JStr (U ''https://x/b'')],
      [''url'' \<mapsto> JStr (U ''https://x/c'')]]
     [[''url'' \<mapsto> JStr (U ''https://x/b'')]]
   = Inr [[''url'' \<mapsto> JStr (U ''https://x/a'')], [''url'' \<mapsto> JStr (U ''https://x/c'')]]"
  using diff_returns_new_records_in_order
    [of "[[''url'' \<mapsto> JStr (U ''https://x/a'')], [''url'' \<mapsto> JStr (U ''https://x/b'')],
          [''url'' \<mapsto> JStr (U ''https://x/c'')]]"
        "[[''url'' \<mapsto> JStr (U ''https://x/b'')]]"]
  by (simp add: has_url_def url_of_def U_def)

section \<open>Evaluation of strings\<close>

lemma U_simps: "U [] = []" "U (c # s) = of_char c # U s"
  by (simp_all add: U_def)

lemma is_decimal_ascii: "c < 0x660 \<Longrightarrow> is_decimal c = (0x30 \<le> c \<and> c < 0x3A)"
  by (auto simp add: is_decimal_def decimal_zeros_def)

lemma is_space_ascii: "c < 0x85 \<Longrightarrow> is_space c = (c \<in> {9..13} \<union> {28..32})"
  by (auto simp add: is_space_def)

section \<open>Properties of the Kaggle URL\<close>

lemma kaggle_url_verbatim: "startswith ref (U ''http'') \<Longrightarrow> kaggle_url ref = ref"
  by (simp add: kaggle_url_def)

lemma kaggle_url_prefixed:
  "\<not> startswith ref (U ''http'') \<Longrightarrow>
   kaggle_url ref = U ''https://www.kaggle.com/competitions/'' @ ref"
  by (simp add: kaggle_url_def)

lemma kaggle_url_idempotent: "kaggle_url (kaggle_url ref) = kaggle_url ref"
proof (cases "startswith ref (U ''http'')")
  case True
  then show ?thesis by (simp add: kaggle_url_def)
next
  case False
  have "startswith (U ''https://www.kaggle.com/competitions/'' @ ref) (U ''http'')"
    by (simp add: startswith_def U_simps)
  with False show ?thesis by (simp add: kaggle_url_def)
qed

lemma kaggle_url_of_full_url:
  "begins_with_scheme (U ''https://www.kaggle.com/competitions/titanic'')
   \<and> kaggle_url (U ''https://www.kaggle.com/competitions/titanic'')
       = U ''https://www.kaggle.com/competitions/titanic''
   \<and> kaggle_url (U ''titanic'') = U ''https://www.kaggle.com/competitions/titanic''"
  by (simp add: begins_with_scheme_def kaggle_url_def startswith_def U_simps
      is_scheme_char_def is_alpha_def)

text \<open>
  Claim C9. A reference is to be used verbatim when it begins with a scheme and to be
  prefixed otherwise. The code tests for the four characters \<open>http\<close>: the reference
  \<open>http-traffic-classification\<close>, a slug that has no scheme, passes the test, is used
  verbatim and is not prefixed.
\<close>

theorem kaggle_url_slug_taken_for_url:
  "\<not> begins_with_scheme (U ''http-traffic-classification'')
   \<and> kaggle_item_url \<lparr>k_ref = JStr (U ''http-traffic-classification''), k_title = JNull,
        k_description = JNull, k_category = JNull, k_reward = JNull, k_deadline = None\<rparr>
       = Inr (U ''http-traffic-classification'')
   \<and> kaggle_url (U ''http-traffic-classification'')
       \<noteq> U ''https://www.kaggle.com/competitions/'' @ U ''http-traffic-classification''"
  by (simp add: begins_with_scheme_def kaggle_item_url_def kaggle_url_def startswith_def
      U_simps is_scheme_char_def is_alpha_def)

section \<open>Properties of the FieldExtractor\<close>

lemma find_string_None:
  "\<not> list_ex has_period_label (text_nodes page) \<Longrightarrow> find_string has_period_label page = None"
  by (simp add: find_string_def find_None_iff list_ex_iff)

text \<open>
  Claim C6. In both files \<open>get_competition_period\<close> returns the sentinel string when the
  page has no text node with the period label, and \<open>None\<close> when fetching the page, or
  anything else in its \<open>try\<close> block, raises.
  The sentinel is not the empty string, and the two results differ.
\<close>

theorem period_sentinel_and_absence:
  "(requests_get w url = Inr page \<and> \<not> list_ex has_period_label (text_nodes page) \<longrightarrow>
      main_get_competition_period w url = Inr (Some period_not_found)
      \<and> slackbot_get_competition_period w url = Inr (Some period_not_found))
   \<and> (requests_get w url = Inl e \<longrightarrow>
      main_get_competition_period w url = Inr None
      \<and> slackbot_get_competition_period w url = Inr None)
   \<and> (main_get_competition_period_try w url = Inl e \<longrightarrow>
      main_get_competition_period w url = Inr None)
   \<and> (slackbot_get_competition_period_try w url = Inl e \<longrightarrow>
      slackbot_get_competition_period w url = Inr None)
   \<and> period_not_found \<noteq> []
   \<and> (Inr (Some period_not_found) :: exn + ustring option) \<noteq> Inr None"
  by (auto simp add: main_get_competition_period_def main_get_competition_period_try_def
      slackbot_get_competition_period_def slackbot_get_competition_period_try_def
      find_string_None period_not_found_def)

theorem period_sentinel_and_absence_witness:
  "main_get_competition_period
     (offline_world\<lparr>requests_get := \<lambda>url. Inr (text_page [U ''Schedule''])\<rparr>)
     (U ''https://dacon.io/competitions/1/schedule'') = Inr (Some period_not_found)
   \<and> slackbot_get_competition_period
     (offline_world\<lparr>requests_get := \<lambda>url. Inr (text_page [U ''Schedule''])\<rparr>)
     (U ''https://dacon.io/competitions/1/schedule'') = Inr (Some period_not_found)
   \<and> main_get_competition_period offline_world
       (U ''https://dacon.io/competitions/1/schedule'') = Inr None
   \<and> slackbot_get_competition_period offline_world
       (U ''https://dacon.io/competitions/1/schedule'') = Inr None"
  using period_sentinel_and_absence
      [of "offline_world\<lparr>requests_get := \<lambda>url. Inr (text_page [U ''Schedule''])\<rparr>"
          "U ''https://dacon.io/competitions/1/schedule''" "text_page [U ''Schedule'']"]
    period_sentinel_and_absence
      [of offline_world "U ''https://dacon.io/competitions/1/schedule''" _ RequestException]
  by (simp add: offline_world_def text_page_def has_period_label_def period_label_def
      startswith_def U_simps)

section \<open>Properties of the fetchers\<close>

text \<open>
  Claim C8. The fetchers of \<open>main.py\<close> always return a list. When authentication or the
  listing call of the Kaggle client raises, or anything else in the body of the Kaggle
  fetcher does, it returns the empty list; when fetching the Dacon listing raises, or
  anything else that reaches the handler of the Dacon fetcher does, it returns the empty
  list.
\<close>

theorem fetchers_degrade_to_empty:
  "(\<exists>l. main_get_kaggle_competitions w = Inr l)
   \<and> (\<exists>l. main_get_dacon_competitions w = Inr l)
   \<and> (kaggle_authenticate w = Some e \<longrightarrow> main_get_kaggle_competitions w = Inr [])
   \<and> (kaggle_competitions_list w = Inl e \<longrightarrow> main_get_kaggle_competitions w = Inr [])
   \<and> (main_get_kaggle_competitions_try w = Inl e \<longrightarrow> main_get_kaggle_competitions w = Inr [])
   \<and> (requests_get w dacon_main_url = Inl e \<longrightarrow> main_get_dacon_competitions w = Inr [])
   \<and> (main_get_dacon_competitions_try w = Inl e \<longrightarrow> main_get_dacon_competitions w = Inr [])"
  by (auto simp add: main_get_kaggle_competitions_def main_get_kaggle_competitions_try_def
      main_get_dacon_competitions_def main_get_dacon_competitions_try_def
      split: sum.splits option.splits)

theorem fetchers_degrade_to_empty_witness:
  "kaggle_authenticate offline_world = Some OtherError
   \<and> main_get_kaggle_competitions offline_world = Inr []
   \<and> requests_get offline_world dacon_main_url = Inl RequestException
   \<and> main_get_dacon_competitions offline_world = Inr []
   \<and> kaggle_competitions_list (offline_world\<lparr>kaggle_authenticate := None\<rparr>) = Inl OtherError
   \<and> main_get_kaggle_competitions (offline_world\<lparr>kaggle_authenticate := None\<rparr>) = Inr []"
  using fetchers_degrade_to_empty [of offline_world OtherError]
    fetchers_degrade_to_empty [of offline_world RequestException]
    fetchers_degrade_to_empty [of "offline_world\<lparr>kaggle_authenticate := None\<rparr>" OtherError]
  by (simp add: offline_world_def)

section \<open>Cleaning of the schedule text\<close>

lemma py_split_nonempty: "py_split sep s \<noteq> []"
  by (induction s) (auto simp: Let_def)

lemma length_py_split: "length (py_split sep s) = Suc (count_list s sep)"
  by (induction s) (auto simp: Let_def py_split_nonempty)

lemma py_split_no_sep: "count_list s sep = 0 \<Longrightarrow> py_split sep s = [s]"
  by (induction s) (auto simp: Let_def split: if_splits)

lemma py_split_two:
  assumes "count_list s sep = 1"
  shows "py_split sep s = [takeWhile (\<lambda>x. x \<noteq> sep) s, tl (dropWhile (\<lambda>x. x \<noteq> sep) s)]"
  using assms
proof (induction s)
  case Nil
  then show ?case by simp
next
  case (Cons c s)
  show ?case
  proof (cases "c = sep")
    case True
    with Cons.prems have "count_list s sep = 0" by simp
    with True show ?thesis by (simp add: py_split_no_sep)
  next
    case False
    with Cons.prems have "count_list s sep = 1" by simp
    with False Cons.IH show ?thesis by (simp add: Let_def)
  qed
qed

text \<open>What \<open>strip\<close> returns neither begins nor ends with white space.\<close>

lemma py_strip_ends:
  assumes "py_strip s \<noteq> []"
  shows "\<not> is_space (hd (py_strip s)) \<and> \<not> is_space (last (py_strip s))"
proof -
  define ys where "ys = dropWhile is_space s"
  define zs where "zs = dropWhile is_space (rev ys)"
  have strip: "py_strip s = rev zs"
    by (simp add: py_strip_def ys_def zs_def)
  with assms have zs: "zs \<noteq> []" by simp
  then have ys: "ys \<noteq> []" by (auto simp: zs_def)
  have "last (py_strip s) = hd zs"
    using zs by (simp add: strip last_rev)
  moreover have "\<not> is_space (hd zs)"
    using zs unfolding zs_def by (rule hd_dropWhile)
  moreover have "hd (py_strip s) = last zs"
    using zs by (simp add: strip hd_rev)
  moreover have "last zs = last (rev ys)"
  proof -
    have "rev ys = takeWhile is_space (rev ys) @ zs"
      by (simp add: zs_def)
    then have "last (rev ys) = last (takeWhile is_space (rev ys) @ zs)" by simp
    also have "\<dots> = last zs" using zs by simp
    finally show ?thesis by simp
  qed
  moreover have "last (rev ys) = hd ys"
    using ys by (simp add: last_rev)
  moreover have "\<not> is_space (hd ys)"
    using ys unfolding ys_def by (rule hd_dropWhile)
  ultimately show ?thesis by simp
qed

lemma find_string_Some:
  "find_string f page = Some t \<Longrightarrow> f t \<and> t \<in> set (text_nodes page)"
  by (auto simp: find_string_def find_Some_iff)

lemma example_replace_strip:
  "py_strip (py_replace period_prefix [] example_period_text)
     = U ''2024.01.01 10:00 ~ 2024.01.31 18:00''"
  by (simp add: example_period_text_def period_prefix_def U_simps startswith_def py_strip_def
      is_space_ascii)

lemma example_re_sub:
  "re_sub_clock (U ''2024.01.01 10:00 ~ 2024.01.31 18:00'') = U ''2024.01.01  ~ 2024.01.31 ''"
  by (simp add: U_simps match_clock_def is_decimal_ascii)

lemma example_find:
  "find_string has_period_label (text_page [U ''Schedule'', example_period_text])
     = Some example_period_text"
  by (simp add: find_string_def text_page_def has_period_label_def example_period_text_def
      period_prefix_def period_label_def U_simps startswith_def)

lemma example_nonempty: "example_period_text \<noteq> []"
  by (simp add: example_period_text_def period_prefix_def)

text \<open>
  One pass of the substitution can leave a clock time behind: removing \<open>23:45\<close> from
  \<open>123:45:67\<close> leaves \<open>1:67\<close>.
\<close>

lemma re_sub_clock_single_pass: "re_sub_clock (U ''123:45:67'') = U ''1:67''"
  by (simp add: U_simps match_clock_def is_decimal_ascii)

text \<open>
  The label is searched without the hyphen that the removed prefix begins with: a text node
  with the label but without the hyphen keeps its label.
\<close>

lemma label_without_hyphen_kept:
  "has_period_label (period_label @ U '' 2024.01.01'')
   \<and> py_replace period_prefix [] (period_label @ U '' 2024.01.01'')
       = period_label @ U '' 2024.01.01''"
  by (simp add: has_period_label_def period_label_def period_prefix_def U_simps startswith_def)

text \<open>
  The pattern of the code and the clock time of the specification are the same, and so are
  the substitution and the removal of clock times.
\<close>

lemma clock_time_5:
  "5 \<le> length s \<Longrightarrow>
   clock_time (take 5 s) =
     (list_all is_decimal (take 2 s) \<and> s ! 2 = 0x3A \<and> list_all is_decimal (take 2 (drop 3 s)))"
  by (simp add: clock_time_def min_def drop_take)

lemma clock_time_4:
  "4 \<le> length s \<Longrightarrow>
   clock_time (take 4 s) =
     (is_decimal (s ! 0) \<and> s ! 1 = 0x3A \<and> list_all is_decimal (take 2 (drop 2 s)))"
  by (cases s) (simp_all add: clock_time_def min_def drop_take)

lemma clock_time_length: "clock_time s \<Longrightarrow> length s = 4 \<or> length s = 5"
  by (auto simp: clock_time_def)

lemma match_clock_long:
  "5 \<le> length s \<Longrightarrow>
   match_clock s =
     (if clock_time (take 5 s) then Some 5
      else if clock_time (take 4 s) then Some 4 else None)"
  by (simp add: match_clock_def clock_time_5 clock_time_4)

lemma match_clock_four:
  "length s = 4 \<Longrightarrow> match_clock s = (if clock_time s then Some 4 else None)"
  using clock_time_4 [of s] by (simp add: match_clock_def)

lemma match_clock_short: "length s < 4 \<Longrightarrow> match_clock s = None"
  by (simp add: match_clock_def)

lemma re_sub_clock_without: "re_sub_clock s = without_clock_times s"
proof (induction s rule: without_clock_times.induct)
  case 1
  show ?case by simp
next
  case (2 c cs)
  let ?s = "c # cs"
  consider (long) "5 \<le> length ?s" | (four) "length ?s = 4" | (short) "length ?s < 4"
    by linarith
  then show ?case
  proof cases
    case long
    show ?thesis
    proof (cases "clock_time (take 5 ?s)")
      case True
      with long have "match_clock ?s = Some 5" by (simp only: match_clock_long if_True)
      then have "re_sub_clock ?s = re_sub_clock (drop 4 cs)" by simp
      also have "\<dots> = without_clock_times (drop 4 cs)" using True by (rule "2.IH"(1))
      also have "\<dots> = without_clock_times ?s" using True by (simp only: without_clock_times.simps if_True)
      finally show ?thesis .
    next
      case F5: False
      show ?thesis
      proof (cases "clock_time (take 4 ?s)")
        case True
        with long F5 have "match_clock ?s = Some 4"
          by (simp only: match_clock_long if_True if_False)
        then have "re_sub_clock ?s = re_sub_clock (drop 3 cs)" by simp
        also have "\<dots> = without_clock_times (drop 3 cs)" using F5 True by (rule "2.IH"(2))
        also have "\<dots> = without_clock_times ?s"
          using F5 True by (simp only: without_clock_times.simps if_True if_False)
        finally show ?thesis .
      next
        case False
        with long F5 have "match_clock ?s = None"
          by (simp only: match_clock_long if_False)
        then have "re_sub_clock ?s = c # re_sub_clock cs" by simp
        also have "\<dots> = c # without_clock_times cs"
          using "2.IH"(3) [OF F5 False] by simp
        also have "\<dots> = without_clock_times ?s"
          using F5 False by (simp only: without_clock_times.simps if_False)
        finally show ?thesis .
      qed
    qed
  next
    case four
    then have t5: "take 5 ?s = ?s" and t4: "take 4 ?s = ?s" and d4: "drop 4 cs = []"
      and d3: "drop 3 cs = []"
      by simp_all
    show ?thesis
    proof (cases "clock_time ?s")
      case True
      with four have "match_clock ?s = Some 4" by (simp only: match_clock_four if_True)
      then have "re_sub_clock ?s = []" using d3 by simp
      moreover have "without_clock_times ?s = []"
        using True t5 d4 by (simp only: without_clock_times.simps if_True)
      ultimately show ?thesis by simp
    next
      case False
      with four have "match_clock ?s = None" by (simp only: match_clock_four if_False)
      then have "re_sub_clock ?s = c # re_sub_clock cs" by simp
      also have "\<dots> = c # without_clock_times cs"
        using False t5 t4 "2.IH"(3) by simp
      also have "\<dots> = without_clock_times ?s"
        using False t5 t4 by (simp only: without_clock_times.simps if_False)
      finally show ?thesis .
    qed
  next
    case short
    then have n5: "\<not> clock_time (take 5 ?s)" and n4: "\<not> clock_time (take 4 ?s)"
      by (auto dest!: clock_time_length)
    from short have "match_clock ?s = None" by (rule match_clock_short)
    then have "re_sub_clock ?s = c # re_sub_clock cs" by simp
    also have "\<dots> = c # without_clock_times cs"
      using "2.IH"(3) [OF n5 n4] by simp
    also have "\<dots> = without_clock_times ?s"
      using n5 n4 by (simp only: without_clock_times.simps if_False)
    finally show ?thesis .
  qed
qed

lemma py_replace_absent:
  "old \<noteq> [] \<Longrightarrow> \<not> contains old s \<Longrightarrow> py_replace old new s = s"
  by (induction s) auto

lemma py_replace_at_head:
  "old \<noteq> [] \<Longrightarrow> py_replace old new (old @ s) = new @ py_replace old new s"
  by (cases old) (simp_all add: startswith_def)

lemma py_replace_period_prefix:
  assumes "list_all is_space ws" and "\<not> contains period_prefix body"
  shows "py_replace period_prefix [] (ws @ period_prefix @ body) = ws @ body"
  using assms(1)
proof (induction ws)
  case Nil
  have "period_prefix \<noteq> []" by (simp add: period_prefix_def)
  with assms(2) show ?case
    by (simp add: py_replace_at_head py_replace_absent)
next
  case (Cons c ws)
  then have "is_space c" by simp
  then have "c \<noteq> 0x2D" by (auto simp: is_space_def)
  then have "\<not> startswith (c # ws @ period_prefix @ body) period_prefix"
    by (simp add: startswith_def period_prefix_def)
  moreover have "period_prefix \<noteq> []" by (simp add: period_prefix_def)
  ultimately show ?case using Cons by simp
qed

lemma py_strip_leading:
  "list_all is_space ws \<Longrightarrow> py_strip (ws @ s) = py_strip s"
  by (simp add: py_strip_def dropWhile_append2 list_all_iff)

lemma example_body_strip:
  "py_strip (U ''2024.01.01 10:00 ~ 2024.01.31 18:00'') = U ''2024.01.01 10:00 ~ 2024.01.31 18:00''"
  by (simp add: U_simps py_strip_def is_space_ascii)

lemma example_schedule_text:
  "schedule_text (U ''2024.01.01 10:00 ~ 2024.01.31 18:00'') = U ''2024.01.01 ~ 2024.01.31''"
proof -
  have "schedule_text (U ''2024.01.01 10:00 ~ 2024.01.31 18:00'') =
      (let cleaned = U ''2024.01.01  ~ 2024.01.31 ''
       in if count_list cleaned 0x7E = 1
          then py_strip (takeWhile (\<lambda>x. x \<noteq> 0x7E) cleaned) @ U '' ~ ''
                 @ py_strip (tl (dropWhile (\<lambda>x. x \<noteq> 0x7E) cleaned))
          else cleaned)"
    by (simp only: schedule_text_def example_body_strip re_sub_clock_without [symmetric]
        example_re_sub)
  then show ?thesis
    by (simp add: U_simps py_strip_def is_space_ascii)
qed

lemma example_body_without_prefix:
  "\<not> contains period_prefix (U ''2024.01.01 10:00 ~ 2024.01.31 18:00'')"
  by (simp add: period_prefix_def U_simps startswith_def)

text \<open>
  The two parts that are joined again have no white space at their ends, so a single space
  stands on each side of the tilde.
\<close>

lemma py_strip_idem: "py_strip (py_strip s) = py_strip s"
proof (cases "py_strip s = []")
  case True
  have "py_strip [] = []" by (simp add: py_strip_def)
  with True show ?thesis by simp
next
  case False
  let ?t = "py_strip s"
  from py_strip_ends [OF False] have h: "\<not> is_space (hd ?t)" and l: "\<not> is_space (last ?t)"
    by simp_all
  from False h have "dropWhile is_space ?t = ?t"
    by (cases ?t) simp_all
  moreover from False l have "dropWhile is_space (rev ?t) = rev ?t"
    by (cases "rev ?t") (simp_all add: hd_rev [symmetric])
  ultimately show ?thesis
    by (simp add: py_strip_def [of ?t])
qed

lemma schedule_text_rejoined:
  assumes "count_list (without_clock_times (py_strip body)) 0x7E = 1"
  shows "\<exists>start end. schedule_text body = start @ U '' ~ '' @ end
            \<and> py_strip start = start \<and> py_strip end = end"
proof -
  let ?cleaned = "without_clock_times (py_strip body)"
  let ?start = "py_strip (takeWhile (\<lambda>x. x \<noteq> 0x7E) ?cleaned)"
  let ?end = "py_strip (tl (dropWhile (\<lambda>x. x \<noteq> 0x7E) ?cleaned))"
  from assms have "schedule_text body = ?start @ U '' ~ '' @ ?end"
    by (simp add: schedule_text_def Let_def)
  moreover have "py_strip ?start = ?start" "py_strip ?end = ?end"
    by (rule py_strip_idem)+
  ultimately show ?thesis by blast
qed

text \<open>
  Claim C4, amended. When the page was fetched and its first text node with the label
  begins, after white space at most, with the label prefix (hyphen, space, label, space) and
  holds the prefix nowhere else, \<open>get_competition_period\<close> of \<open>main.py\<close> returns the schedule
  text of the specification for what stands behind the prefix: label prefix and surrounding
  white space are stripped, clock times are removed, and two parts around a tilde are
  joined again with single spaces. \<open>get_competition_period\<close> of \<open>contest_noti_slackbot.py\<close>
  strips label prefix and surrounding white space and does nothing else.
\<close>

theorem period_cleaning:
  assumes "requests_get w url = Inr page"
    and "find_string has_period_label page = Some (ws @ period_prefix @ body)"
    and "list_all is_space ws"
    and "\<not> contains period_prefix body"
  shows "main_get_competition_period w url = Inr (Some (schedule_text body))
     \<and> slackbot_get_competition_period w url = Inr (Some (py_strip body))"
proof -
  have ne: "ws @ period_prefix @ body \<noteq> []"
    by (simp add: period_prefix_def)
  have strip: "py_strip (py_replace period_prefix [] (ws @ period_prefix @ body)) = py_strip body"
    using assms(3,4) by (simp add: py_replace_period_prefix py_strip_leading)
  from assms(1,2) ne strip show ?thesis
    by (simp add: main_get_competition_period_def main_get_competition_period_try_def
        slackbot_get_competition_period_def slackbot_get_competition_period_try_def
        schedule_text_def Let_def length_py_split py_split_two re_sub_clock_without)
qed

theorem period_cleaning_witness:
  "main_get_competition_period
     (offline_world\<lparr>requests_get :=
        \<lambda>url. Inr (text_page [U ''Schedule'', example_period_text])\<rparr>)
     (U ''https://dacon.io/competitions/1/schedule'')
   = Inr (Some (U ''2024.01.01 ~ 2024.01.31''))"
  using period_cleaning
      [of "offline_world\<lparr>requests_get :=
             \<lambda>url. Inr (text_page [U ''Schedule'', example_period_text])\<rparr>"
          "U ''https://dacon.io/competitions/1/schedule''"
          "text_page [U ''Schedule'', example_period_text]" "[]"
          "U ''2024.01.01 10:00 ~ 2024.01.31 18:00''"]
    example_find
  by (simp add: offline_world_def example_period_text_def example_body_without_prefix
      example_schedule_text)

text \<open>
  Claim C4 as stated fails for \<open>get_competition_period\<close> of \<open>contest_noti_slackbot.py\<close>: on
  the example of the specification it keeps the clock times.
\<close>

theorem slackbot_period_keeps_clock_times:
  "slackbot_get_competition_period
     (offline_world\<lparr>requests_get :=
        \<lambda>url. Inr (text_page [U ''Schedule'', example_period_text])\<rparr>)
     (U ''https://dacon.io/competitions/1/schedule'')
     = Inr (Some (U ''2024.01.01 10:00 ~ 2024.01.31 18:00''))
   \<and> U ''2024.01.01 10:00 ~ 2024.01.31 18:00'' \<noteq> U ''2024.01.01 ~ 2024.01.31''"
  by (simp add: slackbot_get_competition_period_def slackbot_get_competition_period_try_def
      offline_world_def example_find example_replace_strip example_nonempty)
    (simp add: U_simps)

section \<open>Properties of Retention\<close>

lemma U_inject [simp]: "(U a = U b) = (a = b)"
  by (simp add: U_def inj_map_eq_map inj_on_def)

lemma main_clean_loop_filter:
  "list_all (well_formed_record w) cs \<Longrightarrow>
   main_clean_loop w t cs = Inr (filter (kept_at w t) cs)"
  by (induction cs)
    (auto simp: well_formed_record_def kept_at_def is_kaggle_def parsed_deadline_def getitem_def
      split: option.splits jval.splits)

lemma main_clean_loop_raises:
  "list_ex (bad_deadline w) cs \<Longrightarrow> \<exists>e. main_clean_loop w now cs = Inl e"
  by (induction cs)
    (auto simp: bad_deadline_def is_kaggle_def parsed_deadline_def getitem_def
      split: option.splits jval.splits sum.splits)

text \<open>
  What \<open>clean_competition_data\<close> of \<open>main.py\<close> leaves in the data file, for a checkpoint of
  records of the data model: the records that pass the test against \<open>datetime.now()\<close>, the
  reading of the clock in the zone of the host, when the write completes.
\<close>

lemma retention_against_local_reading:
  assumes "data_file s = Stored cs" and "list_all (well_formed_record w) cs"
    and "write_data_file w (filter (kept_at w (datetime_now w)) cs) = WriteDone"
  shows "\<exists>s'. main_clean_competition_data w s = (Inr (), s')
     \<and> data_file s' = Stored (filter (kept_at w (datetime_now w)) cs)"
  using assms
  by (auto simp: main_clean_competition_data_def Let_def load_competition_data_def
      main_clean_loop_filter save_competition_data_def)

text \<open>
  On a host that keeps UTC the two readings are of one zone, and this is the rule of
  retention.
\<close>

lemma retention_on_utc_host:
  assumes "data_file s = Stored cs" and "list_all (well_formed_record w) cs"
    and "utc_offset w = 0"
    and "write_data_file w (filter (retained w) cs) = WriteDone"
  shows "\<exists>s'. main_clean_competition_data w s = (Inr (), s')
     \<and> data_file s' = Stored (filter (retained w) cs)"
proof -
  from assms(3) have "kept_at w (datetime_now w) = retained w"
    by (auto simp: retained_def datetime_now_def)
  with retention_against_local_reading [OF assms(1,2)] assms(4) show ?thesis
    by simp
qed

lemma retention_on_utc_host_example:
  "data_file (snd (main_clean_competition_data retention_world
     \<lparr>data_file = Stored [kaggle_record (U ''https://x/a'') (U ''2030-01-01 00:00:01 UTC''),
                          kaggle_record (U ''https://x/b'') (U ''2030-01-01 00:00:00 UTC''),
                          kaggle_record (U ''https://x/c'') (U ''2029-12-31 23:59:59 UTC''),
                          dacon_record (U ''https://x/d'')], trace = []\<rparr>))
   = Stored [kaggle_record (U ''https://x/a'') (U ''2030-01-01 00:00:01 UTC''),
             dacon_record (U ''https://x/d'')]"
  using retention_on_utc_host
    [of "\<lparr>data_file = Stored [kaggle_record (U ''https://x/a'') (U ''2030-01-01 00:00:01 UTC''),
                          kaggle_record (U ''https://x/b'') (U ''2030-01-01 00:00:00 UTC''),
                          kaggle_record (U ''https://x/c'') (U ''2029-12-31 23:59:59 UTC''),
                          dacon_record (U ''https://x/d'')], trace = []\<rparr>"
        "[kaggle_record (U ''https://x/a'') (U ''2030-01-01 00:00:01 UTC''),
          kaggle_record (U ''https://x/b'') (U ''2030-01-01 00:00:00 UTC''),
          kaggle_record (U ''https://x/c'') (U ''2029-12-31 23:59:59 UTC''),
          dacon_record (U ''https://x/d'')]" retention_world]
  by (auto simp: well_formed_record_def retained_def kept_at_def is_kaggle_def
      parsed_deadline_def retention_world_def offline_world_def kaggle_record_def
      dacon_record_def)

text \<open>
  Claim C5 says that a record with a deadline is kept if and only if the deadline is
  strictly after the current instant. \<open>clean_competition_data\<close> of \<open>main.py\<close> compares the
  deadline, which the code itself labels as UTC, with \<open>datetime.now()\<close>, the reading of the
  clock in the zone of the host. On a host in \<open>Asia/Seoul\<close> a record whose deadline is one
  second after the current instant, which the rule keeps, is removed from the data file;
  on a host in \<open>America/Los_Angeles\<close> a record whose deadline is one second before the
  current instant, which the rule drops, stays in it.
\<close>

theorem retention_compares_utc_deadline_with_local_reading:
  "retained seoul_world (kaggle_record (U ''https://x/a'') (U ''2030-01-01 00:00:01 UTC''))
   \<and> main_clean_competition_data seoul_world
        \<lparr>data_file = Stored [kaggle_record (U ''https://x/a'') (U ''2030-01-01 00:00:01 UTC'')],
         trace = []\<rparr>
     = (Inr (), \<lparr>data_file = Stored [], trace = [Saved []]\<rparr>)
   \<and> \<not> retained los_angeles_world
          (kaggle_record (U ''https://x/c'') (U ''2029-12-31 23:59:59 UTC''))
   \<and> main_clean_competition_data los_angeles_world
        \<lparr>data_file = Stored [kaggle_record (U ''https://x/c'') (U ''2029-12-31 23:59:59 UTC'')],
         trace = []\<rparr>
     = (Inr (),
        \<lparr>data_file = Stored [kaggle_record (U ''https://x/c'') (U ''2029-12-31 23:59:59 UTC'')],
         trace = [Saved [kaggle_record (U ''https://x/c'') (U ''2029-12-31 23:59:59 UTC'')]]\<rparr>)"
  by (simp add: retained_def kept_at_def is_kaggle_def parsed_deadline_def seoul_world_def
      los_angeles_world_def retention_world_def offline_world_def kaggle_record_def
      main_clean_competition_data_def load_competition_data_def save_competition_data_def
      datetime_now_def getitem_def Let_def)

text \<open>
  Claim C10. When the stored checkpoint holds a Kaggle record whose deadline is missing or
  cannot be read, \<open>clean_competition_data\<close> of \<open>main.py\<close> returns without an exception and
  leaves the state, and so the data file, as it was: nothing is saved.
\<close>

theorem retention_aborts_without_saving:
  assumes "list_ex (bad_deadline w) (load_competition_data s)"
  shows "main_clean_competition_data w s = (Inr (), s)"
proof -
  from assms have "load_competition_data s \<noteq> []" by auto
  moreover from assms obtain e where
    "main_clean_loop w (datetime_now w) (load_competition_data s) = Inl e"
    using main_clean_loop_raises by blast
  ultimately show ?thesis
    by (simp add: main_clean_competition_data_def Let_def)
qed

theorem retention_aborts_without_saving_witness:
  "main_clean_competition_data retention_world
     \<lparr>data_file = Stored [kaggle_record (U ''https://x/c'') (U ''2029-12-31 23:59:59 UTC''),
                          kaggle_record (U ''https://x/e'') (U ''soon'')], trace = []\<rparr>
   = (Inr (),
     \<lparr>data_file = Stored [kaggle_record (U ''https://x/c'') (U ''2029-12-31 23:59:59 UTC''),
                          kaggle_record (U ''https://x/e'') (U ''soon'')], trace = []\<rparr>)"
  using retention_aborts_without_saving
    [of retention_world
        "\<lparr>data_file = Stored [kaggle_record (U ''https://x/c'') (U ''2029-12-31 23:59:59 UTC''),
                              kaggle_record (U ''https://x/e'') (U ''soon'')], trace = []\<rparr>"]
  by (simp add: bad_deadline_def is_kaggle_def parsed_deadline_def load_competition_data_def
      retention_world_def offline_world_def kaggle_record_def)

section \<open>What the fetchers return\<close>

lemma main_kaggle_loop_has_url:
  "main_kaggle_loop w items = Inr l \<Longrightarrow> list_all has_url l"
  by (induction items arbitrary: l)
    (auto simp: has_url_def Let_def split: option.splits sum.splits if_splits)

lemma slackbot_kaggle_loop_has_url:
  "slackbot_kaggle_loop w items = Inr l \<Longrightarrow> list_all has_url l"
  by (induction items arbitrary: l)
    (auto simp: has_url_def Let_def split: option.splits sum.splits if_splits)

lemma main_dacon_entry_has_url:
  "main_dacon_entry_try w entry = Inr (Some c) \<Longrightarrow> has_url c"
  by (auto simp: main_dacon_entry_try_def has_url_def Let_def
      split: option.splits sum.splits if_splits)

lemma main_dacon_loop_has_url: "list_all has_url (main_dacon_loop w entries)"
  by (induction entries)
    (auto simp: main_dacon_entry_has_url split: option.splits sum.splits)

lemma slackbot_dacon_loop_has_url:
  "slackbot_dacon_loop w entries = Inr l \<Longrightarrow> list_all has_url l"
  by (induction entries arbitrary: l)
    (auto simp: has_url_def Let_def split: option.splits sum.splits if_splits)

lemma main_get_kaggle_total:
  "\<exists>l. main_get_kaggle_competitions w = Inr l \<and> list_all has_url l"
  by (auto simp: main_get_kaggle_competitions_def main_get_kaggle_competitions_try_def
      main_kaggle_loop_has_url split: sum.splits option.splits)

lemma main_get_dacon_total:
  "\<exists>l. main_get_dacon_competitions w = Inr l \<and> list_all has_url l"
  by (auto simp: main_get_dacon_competitions_def main_get_dacon_competitions_try_def
      main_dacon_loop_has_url split: sum.splits option.splits)

lemma slackbot_get_kaggle_total:
  "\<exists>l. slackbot_get_kaggle_competitions w = Inr l \<and> list_all has_url l"
  by (auto simp: slackbot_get_kaggle_competitions_def slackbot_get_kaggle_competitions_try_def
      slackbot_kaggle_loop_has_url split: sum.splits option.splits)

lemma slackbot_get_dacon_total:
  "\<exists>l. slackbot_get_dacon_competitions w = Inr l \<and> list_all has_url l"
  by (auto simp: slackbot_get_dacon_competitions_def slackbot_get_dacon_competitions_try_def
      slackbot_dacon_loop_has_url split: sum.splits option.splits)

lemma main_current_has_url: "list_all has_url (main_current w)"
  using main_get_kaggle_total [of w] main_get_dacon_total [of w]
  by (auto simp: main_current_def)

lemma slackbot_current_has_url: "list_all has_url (slackbot_current w)"
  using slackbot_get_kaggle_total [of w] slackbot_get_dacon_total [of w]
  by (auto simp: slackbot_current_def)

lemma slackbot_fetch:
  "slackbot_get_kaggle_competitions w = Inr kaggle \<Longrightarrow>
   slackbot_get_dacon_competitions w = Inr dacon \<Longrightarrow> slackbot_current w = kaggle @ dacon"
  by (simp add: slackbot_current_def)

lemma main_fetch:
  "main_get_kaggle_competitions w = Inr kaggle \<Longrightarrow>
   main_get_dacon_competitions w = Inr dacon \<Longrightarrow> main_current w = kaggle @ dacon"
  by (simp add: main_current_def)

section \<open>Properties of the Notifier\<close>

lemma main_send:
  "main_send_slack_notification w c s =
     (Inr (), if main_renders c then s\<lparr>trace := trace s @ [Posted (main_message c)]\<rparr> else s)"
  by (auto simp: main_send_slack_notification_def main_renders_def main_message_def Let_def
      main_format_slack_message_def split: sum.splits post_outcome.splits if_splits)

lemma main_notify_each_trace:
  "main_notify_each w cs s =
     (Inr (), s\<lparr>trace := trace s @ map Posted (map main_message (filter main_renders cs))\<rparr>)"
  by (induction cs arbitrary: s) (auto simp: main_send)

lemma slackbot_send_cases:
  "slackbot_send_slack_notification w c s = (r, s') \<Longrightarrow>
   s' = s \<or> s' = s\<lparr>trace := trace s @ [Posted (slackbot_message c)]\<rparr>"
  by (auto simp: slackbot_send_slack_notification_def slackbot_message_def Let_def
      slackbot_format_slack_message_def split: sum.splits post_outcome.splits if_splits)

lemma slackbot_send_deliverable:
  "slackbot_deliverable w c \<Longrightarrow>
   \<exists>sent. slackbot_send_slack_notification w c s =
     (Inr sent, s\<lparr>trace := trace s @ [Posted (slackbot_message c)]\<rparr>)"
  by (auto simp: slackbot_send_slack_notification_def slackbot_message_def Let_def
      slackbot_deliverable_def slackbot_format_slack_message_def
      split: sum.splits post_outcome.splits if_splits)

lemma slackbot_notify_each_posts:
  "slackbot_notify_each w cs s = (r, s') \<Longrightarrow>
   \<exists>ms. s' = s\<lparr>trace := trace s @ map Posted ms\<rparr>"
proof (induction cs arbitrary: s)
  case Nil
  then have "s' = s\<lparr>trace := trace s @ map Posted []\<rparr>" by simp
  then show ?case by blast
next
  case (Cons c cs)
  obtain r1 s1 where send: "slackbot_send_slack_notification w c s = (r1, s1)"
    by (cases "slackbot_send_slack_notification w c s")
  from slackbot_send_cases [OF send]
  obtain m1 where s1: "s1 = s\<lparr>trace := trace s @ map Posted m1\<rparr>"
  proof
    assume "s1 = s"
    then have "s1 = s\<lparr>trace := trace s @ map Posted []\<rparr>" by simp
    then show ?thesis by (rule that)
  next
    assume "s1 = s\<lparr>trace := trace s @ [Posted (slackbot_message c)]\<rparr>"
    then have "s1 = s\<lparr>trace := trace s @ map Posted [slackbot_message c]\<rparr>" by simp
    then show ?thesis by (rule that)
  qed
  show ?case
  proof (cases r1)
    case (Inl e)
    with Cons.prems send have "s' = s1" by simp
    with s1 show ?thesis by blast
  next
    case (Inr sent)
    with Cons.prems send have "slackbot_notify_each w cs s1 = (r, s')" by simp
    from Cons.IH [OF this] obtain ms where "s' = s1\<lparr>trace := trace s1 @ map Posted ms\<rparr>"
      by blast
    with s1 have "s' = s\<lparr>trace := trace s @ map Posted (m1 @ ms)\<rparr>" by simp
    then show ?thesis by blast
  qed
qed

lemma slackbot_notify_each_deliverable:
  "list_all (slackbot_deliverable w) cs \<Longrightarrow>
   slackbot_notify_each w cs s =
     (Inr (), s\<lparr>trace := trace s @ map Posted (map slackbot_message cs)\<rparr>)"
proof (induction cs arbitrary: s)
  case Nil
  then show ?case by simp
next
  case (Cons c cs)
  then obtain sent where
    "slackbot_send_slack_notification w c s =
       (Inr sent, s\<lparr>trace := trace s @ [Posted (slackbot_message c)]\<rparr>)"
    using slackbot_send_deliverable [of w c s] by auto
  with Cons show ?case by simp
qed

lemma send_no_competition_trace:
  "\<exists>r. send_no_competition_notification w s =
     (r, s\<lparr>trace := trace s @ [Posted no_competition_message]\<rparr>)"
  by (auto simp: send_no_competition_notification_def Let_def split: post_outcome.splits)

lemma colon_in_new_competition_text: "0x3A \<in> set (new_competition_text platform name)"
  by (simp add: new_competition_text_def)

lemma messages_distinct:
  "slackbot_message c \<noteq> no_competition_message"
  "msg_text (slackbot_message c) \<noteq> msg_text no_competition_message"
  "main_message c \<noteq> no_competition_message"
proof -
  show "slackbot_message c \<noteq> no_competition_message"
    by (simp add: slackbot_message_def no_competition_message_def)
  show "main_message c \<noteq> no_competition_message"
    by (simp add: main_message_def no_competition_message_def)
  have "0x3A \<notin> set (msg_text no_competition_message)"
    by (simp add: no_competition_message_def)
  moreover have "0x3A \<in> set (msg_text (slackbot_message c))"
    by (simp add: slackbot_message_def colon_in_new_competition_text)
  ultimately show "msg_text (slackbot_message c) \<noteq> msg_text no_competition_message"
    by metis
qed

section \<open>A cycle of the Orchestrator\<close>

lemma slackbot_cycle:
  assumes "list_all has_url (load_competition_data s)"
  shows "\<exists>r. slackbot_check_new_competitions w s =
     (r, if new_records (slackbot_current w) (load_competition_data s) = []
         then (save_competition_data w (slackbot_current w) s)
                \<lparr>trace := trace s @ [Saved (slackbot_current w), Posted no_competition_message]\<rparr>
         else snd (slackbot_notify_each w
                (new_records (slackbot_current w) (load_competition_data s))
                (save_competition_data w (slackbot_current w) s)))"
proof -
  obtain kaggle where k: "slackbot_get_kaggle_competitions w = Inr kaggle"
    using slackbot_get_kaggle_total [of w] by blast
  obtain dacon where d: "slackbot_get_dacon_competitions w = Inr dacon"
    using slackbot_get_dacon_total [of w] by blast
  have cur: "slackbot_current w = kaggle @ dacon"
    using k d by (rule slackbot_fetch)
  have new: "find_new_competitions (kaggle @ dacon) (load_competition_data s)
      = Inr (new_records (kaggle @ dacon) (load_competition_data s))"
    using slackbot_current_has_url [of w] assms
    by (simp add: find_new_competitions_filter cur new_records_def)
  show ?thesis
  proof (cases "new_records (kaggle @ dacon) (load_competition_data s) = []")
    case True
    obtain r where
      "send_no_competition_notification w (save_competition_data w (kaggle @ dacon) s) =
        (r, (save_competition_data w (kaggle @ dacon) s)
              \<lparr>trace := trace (save_competition_data w (kaggle @ dacon) s)
                  @ [Posted no_competition_message]\<rparr>)"
      using send_no_competition_trace by blast
    with True k d new show ?thesis
      by (cases r) (simp_all add: slackbot_check_new_competitions_def Let_def cur
          save_competition_data_def)
  next
    case False
    with k d new show ?thesis
      by (cases "slackbot_notify_each w (new_records (kaggle @ dacon) (load_competition_data s))
            (save_competition_data w (kaggle @ dacon) s)")
        (simp add: slackbot_check_new_competitions_def Let_def cur)
  qed
qed

lemma main_cycle:
  assumes "list_all has_url (load_competition_data s)"
  shows "main_check_new_competitions w s =
     (Inr (), if main_current w = [] then s
              else (save_competition_data w (main_current w) s)
                    \<lparr>trace := trace s
                       @ map Posted (map main_message (filter main_renders
                           (new_records (main_current w) (load_competition_data s))))
                       @ [Saved (main_current w)]\<rparr>)"
proof -
  obtain kaggle where k: "main_get_kaggle_competitions w = Inr kaggle"
    using main_get_kaggle_total [of w] by blast
  obtain dacon where d: "main_get_dacon_competitions w = Inr dacon"
    using main_get_dacon_total [of w] by blast
  have cur: "main_current w = kaggle @ dacon"
    using k d by (rule main_fetch)
  have new: "get_new_competitions (kaggle @ dacon) (load_competition_data s)
      = Inr (new_records (kaggle @ dacon) (load_competition_data s))"
    using main_current_has_url [of w] assms
    by (simp add: get_new_competitions_filter cur new_records_def)
  show ?thesis
    using k d new
    by (simp add: main_check_new_competitions_def main_check_new_competitions_try_def Let_def
        cur main_notify_each_trace save_competition_data_def split: write_outcome.splits)
qed

lemma main_cycle_empty:
  "main_current w = [] \<Longrightarrow> main_check_new_competitions w s = (Inr (), s)"
proof -
  assume e: "main_current w = []"
  obtain kaggle where k: "main_get_kaggle_competitions w = Inr kaggle"
    using main_get_kaggle_total [of w] by blast
  obtain dacon where d: "main_get_dacon_competitions w = Inr dacon"
    using main_get_dacon_total [of w] by blast
  have "main_current w = kaggle @ dacon"
    using k d by (rule main_fetch)
  with e k d show ?thesis
    by (simp add: main_check_new_competitions_def main_check_new_competitions_try_def Let_def)
qed

text \<open>
  A record of the checkpoint without a \<open>url\<close> makes the diff raise \<open>KeyError\<close> before
  anything is saved or posted: \<open>contest_noti_slackbot.py\<close> lets the exception through,
  \<open>main.py\<close> logs it.
\<close>

lemma slackbot_cycle_KeyError:
  assumes "\<not> list_all has_url (load_competition_data s)"
  shows "slackbot_check_new_competitions w s = (Inl KeyError, s)"
proof -
  obtain kaggle where k: "slackbot_get_kaggle_competitions w = Inr kaggle"
    using slackbot_get_kaggle_total [of w] by blast
  obtain dacon where d: "slackbot_get_dacon_competitions w = Inr dacon"
    using slackbot_get_dacon_total [of w] by blast
  from assms have "find_new_competitions (kaggle @ dacon) (load_competition_data s)
      = Inl KeyError"
    by (simp add: find_new_competitions_KeyError)
  with k d show ?thesis
    by (simp add: slackbot_check_new_competitions_def Let_def)
qed

lemma main_cycle_KeyError:
  assumes "\<not> list_all has_url (load_competition_data s)"
  shows "main_check_new_competitions w s = (Inr (), s)"
proof -
  obtain kaggle where k: "main_get_kaggle_competitions w = Inr kaggle"
    using main_get_kaggle_total [of w] by blast
  obtain dacon where d: "main_get_dacon_competitions w = Inr dacon"
    using main_get_dacon_total [of w] by blast
  from assms have "get_new_competitions (kaggle @ dacon) (load_competition_data s)
      = Inl KeyError"
    by (simp add: get_new_competitions_KeyError)
  with k d show ?thesis
    by (simp add: main_check_new_competitions_def main_check_new_competitions_try_def Let_def)
qed

section \<open>The scenarios evaluated\<close>

lemma main_current_offline: "main_current offline_world = []"
  by (simp add: main_current_def main_get_kaggle_competitions_def
      main_get_kaggle_competitions_try_def main_get_dacon_competitions_def
      main_get_dacon_competitions_try_def offline_world_def)

lemma slackbot_current_offline: "slackbot_current offline_world = []"
  by (simp add: slackbot_current_def slackbot_get_kaggle_competitions_def
      slackbot_get_kaggle_competitions_try_def slackbot_get_dacon_competitions_def
      slackbot_get_dacon_competitions_try_def offline_world_def)

lemma main_current_kaggle_world: "main_current kaggle_world = [main_titanic_record]"
  by (simp add: main_current_def main_get_kaggle_competitions_def
      main_get_kaggle_competitions_try_def main_get_dacon_competitions_def
      main_get_dacon_competitions_try_def kaggle_world_def offline_world_def titanic_item_def
      kaggle_item_url_def kaggle_url_def startswith_def main_kaggle_image_def main_kaggle_image_try_def
      main_titanic_record_def slackbot_titanic_record_def datetime_now_def U_simps)

lemma slackbot_current_kaggle_world: "slackbot_current kaggle_world = [slackbot_titanic_record]"
  by (simp add: slackbot_current_def slackbot_get_kaggle_competitions_def
      slackbot_get_kaggle_competitions_try_def slackbot_get_dacon_competitions_def
      slackbot_get_dacon_competitions_try_def kaggle_world_def offline_world_def titanic_item_def
      kaggle_item_url_def kaggle_url_def startswith_def slackbot_titanic_record_def
      datetime_now_def U_simps)

lemma slackbot_current_read_only: "slackbot_current read_only_world = []"
  by (simp add: slackbot_current_def slackbot_get_kaggle_competitions_def
      slackbot_get_kaggle_competitions_try_def slackbot_get_dacon_competitions_def
      slackbot_get_dacon_competitions_try_def read_only_world_def offline_world_def)

lemma write_scenarios:
  "write_data_file offline_world data = WriteDone"
  "write_data_file kaggle_world data = WriteDone"
  "write_data_file read_only_world data = WriteNotOpened"
  by (simp_all add: kaggle_world_def read_only_world_def offline_world_def)

lemma titanic_has_url: "has_url slackbot_titanic_record" "has_url main_titanic_record"
  by (simp_all add: has_url_def main_titanic_record_def slackbot_titanic_record_def)

lemma titanic_renders: "main_renders main_titanic_record"
  by (simp add: main_renders_def main_format_slack_message_def getitem_def
      main_titanic_record_def slackbot_titanic_record_def)

lemma titanic_deliverable: "slackbot_deliverable kaggle_world slackbot_titanic_record"
  by (simp add: slackbot_deliverable_def slackbot_format_slack_message_def getitem_def
      slackbot_titanic_record_def kaggle_world_def offline_world_def)

lemma new_records_simps:
  "new_records cur [] = cur" "new_records [c] [c] = []"
  by (simp_all add: new_records_def)

section \<open>Properties of the Orchestrator\<close>

lemma slackbot_notify_each_data_file:
  "slackbot_notify_each w cs s = (r, s') \<Longrightarrow> data_file s' = data_file s"
  by (auto dest: slackbot_notify_each_posts)

lemma data_file_save:
  "data_file (save_competition_data w data s) =
     (case write_data_file w data of
        WriteDone \<Rightarrow> Stored data
      | WriteNotOpened \<Rightarrow> data_file s
      | WriteCutShort \<Rightarrow> Corrupt)"
  by (simp add: save_competition_data_def)

lemma slackbot_cycle_data_file:
  assumes "list_all has_url (load_competition_data s)"
  shows "data_file (snd (slackbot_check_new_competitions w s))
           = data_file (save_competition_data w (slackbot_current w) s)"
proof -
  obtain r where cyc: "slackbot_check_new_competitions w s =
     (r, if new_records (slackbot_current w) (load_competition_data s) = []
         then (save_competition_data w (slackbot_current w) s)
                \<lparr>trace := trace s @ [Saved (slackbot_current w), Posted no_competition_message]\<rparr>
         else snd (slackbot_notify_each w
                (new_records (slackbot_current w) (load_competition_data s))
                (save_competition_data w (slackbot_current w) s)))"
    using slackbot_cycle [OF assms] by blast
  obtain r' s' where ne: "slackbot_notify_each w
                (new_records (slackbot_current w) (load_competition_data s))
                (save_competition_data w (slackbot_current w) s) = (r', s')"
    by (cases "slackbot_notify_each w
                (new_records (slackbot_current w) (load_competition_data s))
                (save_competition_data w (slackbot_current w) s)")
  from slackbot_notify_each_data_file [OF ne] cyc ne show ?thesis
    by simp
qed

lemma slackbot_cycle_saves:
  assumes "list_all has_url (load_competition_data s)"
  shows "\<exists>ms. trace (snd (slackbot_check_new_competitions w s))
              = trace s @ Saved (slackbot_current w) # map Posted ms"
proof -
  obtain r where cyc: "slackbot_check_new_competitions w s =
     (r, if new_records (slackbot_current w) (load_competition_data s) = []
         then (save_competition_data w (slackbot_current w) s)
                \<lparr>trace := trace s @ [Saved (slackbot_current w), Posted no_competition_message]\<rparr>
         else snd (slackbot_notify_each w
                (new_records (slackbot_current w) (load_competition_data s))
                (save_competition_data w (slackbot_current w) s)))"
    using slackbot_cycle [OF assms] by blast
  obtain r' s' where ne: "slackbot_notify_each w
                (new_records (slackbot_current w) (load_competition_data s))
                (save_competition_data w (slackbot_current w) s) = (r', s')"
    by (cases "slackbot_notify_each w
                (new_records (slackbot_current w) (load_competition_data s))
                (save_competition_data w (slackbot_current w) s)")
  from slackbot_notify_each_posts [OF ne] obtain ms where
    ms: "trace s' = trace s @ Saved (slackbot_current w) # map Posted ms"
    by (auto simp: save_competition_data_def)
  show ?thesis
  proof (cases "new_records (slackbot_current w) (load_competition_data s) = []")
    case True
    with cyc have "trace (snd (slackbot_check_new_competitions w s))
        = trace s @ Saved (slackbot_current w) # map Posted [no_competition_message]"
      by simp
    then show ?thesis by blast
  next
    case False
    with cyc ne ms have "trace (snd (slackbot_check_new_competitions w s))
        = trace s @ Saved (slackbot_current w) # map Posted ms"
      by simp
    then show ?thesis by blast
  qed
qed

text \<open>
  Claim C2, amended. With a checkpoint whose records carry a \<open>url\<close>,
  \<open>check_new_competitions\<close> of \<open>contest_noti_slackbot.py\<close> calls \<open>save_competition_data\<close>
  with the full fetched list in every cycle, whether or not anything was new and also when
  nothing was fetched, and goes on to notify; when the write completes, the data file holds
  the fetched list after the cycle (when the file could not be opened it is as it was, and
  a write cut short leaves it unreadable). \<open>check_new_competitions\<close> of \<open>main.py\<close> does the
  same when something was fetched; when nothing was fetched it returns at once and changes
  nothing.
\<close>

theorem checkpoint_overwrite:
  assumes "list_all has_url (load_competition_data s)"
  shows "(\<exists>ms. trace (snd (slackbot_check_new_competitions w s))
              = trace s @ Saved (slackbot_current w) # map Posted ms)
     \<and> data_file (snd (slackbot_check_new_competitions w s))
          = (case write_data_file w (slackbot_current w) of
               WriteDone \<Rightarrow> Stored (slackbot_current w)
             | WriteNotOpened \<Rightarrow> data_file s
             | WriteCutShort \<Rightarrow> Corrupt)
     \<and> (main_current w \<noteq> [] \<longrightarrow>
          (\<exists>ms. trace (snd (main_check_new_competitions w s))
                 = trace s @ map Posted ms @ [Saved (main_current w)])
          \<and> data_file (snd (main_check_new_competitions w s))
              = (case write_data_file w (main_current w) of
                   WriteDone \<Rightarrow> Stored (main_current w)
                 | WriteNotOpened \<Rightarrow> data_file s
                 | WriteCutShort \<Rightarrow> Corrupt))
     \<and> (main_current w = [] \<longrightarrow> main_check_new_competitions w s = (Inr (), s))"
proof -
  have "main_current w \<noteq> [] \<Longrightarrow>
          trace (snd (main_check_new_competitions w s))
             = trace s @ map Posted (map main_message (filter main_renders
                   (new_records (main_current w) (load_competition_data s))))
                 @ [Saved (main_current w)]"
    by (simp add: main_cycle [OF assms])
  then have "main_current w \<noteq> [] \<Longrightarrow>
          \<exists>ms. trace (snd (main_check_new_competitions w s))
                 = trace s @ map Posted ms @ [Saved (main_current w)]"
    by blast
  moreover have "main_current w \<noteq> [] \<Longrightarrow>
          data_file (snd (main_check_new_competitions w s))
              = (case write_data_file w (main_current w) of
                   WriteDone \<Rightarrow> Stored (main_current w)
                 | WriteNotOpened \<Rightarrow> data_file s
                 | WriteCutShort \<Rightarrow> Corrupt)"
    by (simp add: main_cycle [OF assms] data_file_save)
  moreover have "main_current w = [] \<Longrightarrow> main_check_new_competitions w s = (Inr (), s)"
    by (rule main_cycle_empty)
  moreover note slackbot_cycle_saves [OF assms, of w]
  moreover have "data_file (snd (slackbot_check_new_competitions w s))
          = (case write_data_file w (slackbot_current w) of
               WriteDone \<Rightarrow> Stored (slackbot_current w)
             | WriteNotOpened \<Rightarrow> data_file s
             | WriteCutShort \<Rightarrow> Corrupt)"
    by (simp add: slackbot_cycle_data_file [OF assms] data_file_save)
  ultimately show ?thesis by blast
qed

theorem checkpoint_overwrite_witness:
  "data_file (snd (slackbot_check_new_competitions kaggle_world \<lparr>data_file = Missing, trace = []\<rparr>))
     = Stored [slackbot_titanic_record]
   \<and> data_file (snd (slackbot_check_new_competitions offline_world
        \<lparr>data_file = Stored [slackbot_titanic_record], trace = []\<rparr>)) = Stored []
   \<and> data_file (snd (slackbot_check_new_competitions read_only_world
        \<lparr>data_file = Stored [slackbot_titanic_record], trace = []\<rparr>))
       = Stored [slackbot_titanic_record]
   \<and> data_file (snd (main_check_new_competitions kaggle_world
        \<lparr>data_file = Stored [main_titanic_record], trace = []\<rparr>)) = Stored [main_titanic_record]
   \<and> main_check_new_competitions offline_world
        \<lparr>data_file = Stored [main_titanic_record], trace = []\<rparr>
       = (Inr (), \<lparr>data_file = Stored [main_titanic_record], trace = []\<rparr>)"
  using checkpoint_overwrite [of "\<lparr>data_file = Missing, trace = []\<rparr>" kaggle_world]
    checkpoint_overwrite [of "\<lparr>data_file = Stored [slackbot_titanic_record], trace = []\<rparr>" offline_world]
    checkpoint_overwrite [of "\<lparr>data_file = Stored [slackbot_titanic_record], trace = []\<rparr>"
      read_only_world]
    checkpoint_overwrite [of "\<lparr>data_file = Stored [main_titanic_record], trace = []\<rparr>" kaggle_world]
    checkpoint_overwrite [of "\<lparr>data_file = Stored [main_titanic_record], trace = []\<rparr>" offline_world]
  by (simp add: load_competition_data_def titanic_has_url slackbot_current_kaggle_world
      slackbot_current_offline slackbot_current_read_only main_current_kaggle_world
      main_current_offline write_scenarios)

text \<open>
  Claim C2 as stated fails for \<open>main.py\<close>: when every source fails, the fetch result is
  empty and the cycle returns with the checkpoint as it was, not overwritten with the empty
  list, and with no save and no notification in the trace.
\<close>

theorem main_keeps_checkpoint_when_nothing_fetched:
  "main_get_kaggle_competitions offline_world = Inr []
   \<and> main_get_dacon_competitions offline_world = Inr []
   \<and> main_check_new_competitions offline_world
        \<lparr>data_file = Stored [dacon_record (U ''https://x/d'')], trace = []\<rparr>
     = (Inr (), \<lparr>data_file = Stored [dacon_record (U ''https://x/d'')], trace = []\<rparr>)
   \<and> Stored [dacon_record (U ''https://x/d'')] \<noteq> Stored []"
  by (simp add: main_cycle_empty main_current_offline)
    (simp add: main_get_kaggle_competitions_def
      main_get_kaggle_competitions_try_def main_get_dacon_competitions_def
      main_get_dacon_competitions_try_def offline_world_def)

text \<open>
  Claim C3, amended. With a checkpoint whose records carry a \<open>url\<close>: a cycle of
  \<open>contest_noti_slackbot.py\<close> in which nothing is new posts, after the save, exactly one
  message, the fixed message that nothing is new; a cycle in which records are new and each
  of their notifications goes through posts one message per new record, in their order. The
  fixed message differs from every message about a record, also in its fallback text. A
  cycle of \<open>main.py\<close> posts one message per new record that is rendered and never the fixed
  message: when nothing is new it posts nothing.
\<close>

theorem notifications_per_cycle:
  assumes "list_all has_url (load_competition_data s)"
  shows "(new_records (slackbot_current w) (load_competition_data s) = [] \<longrightarrow>
            trace (snd (slackbot_check_new_competitions w s))
              = trace s @ [Saved (slackbot_current w), Posted no_competition_message])
     \<and> (new_records (slackbot_current w) (load_competition_data s) \<noteq> []
          \<and> list_all (slackbot_deliverable w)
               (new_records (slackbot_current w) (load_competition_data s)) \<longrightarrow>
            trace (snd (slackbot_check_new_competitions w s))
              = trace s @ Saved (slackbot_current w)
                  # map Posted (map slackbot_message
                      (new_records (slackbot_current w) (load_competition_data s))))
     \<and> (\<forall>c. slackbot_message c \<noteq> no_competition_message
             \<and> msg_text (slackbot_message c) \<noteq> msg_text no_competition_message
             \<and> main_message c \<noteq> no_competition_message)
     \<and> trace (snd (main_check_new_competitions w s))
          = (if main_current w = [] then trace s
             else trace s
                    @ map Posted (map main_message (filter main_renders
                        (new_records (main_current w) (load_competition_data s))))
                    @ [Saved (main_current w)])"
proof -
  obtain r where cyc: "slackbot_check_new_competitions w s =
     (r, if new_records (slackbot_current w) (load_competition_data s) = []
         then (save_competition_data w (slackbot_current w) s)
                \<lparr>trace := trace s @ [Saved (slackbot_current w), Posted no_competition_message]\<rparr>
         else snd (slackbot_notify_each w
                (new_records (slackbot_current w) (load_competition_data s))
                (save_competition_data w (slackbot_current w) s)))"
    using slackbot_cycle [OF assms] by blast
  have "trace (snd (main_check_new_competitions w s))
          = (if main_current w = [] then trace s
             else trace s
                    @ map Posted (map main_message (filter main_renders
                        (new_records (main_current w) (load_competition_data s))))
                    @ [Saved (main_current w)])"
    by (simp add: main_cycle [OF assms])
  with cyc show ?thesis
    by (simp add: messages_distinct slackbot_notify_each_deliverable save_competition_data_def)
qed

theorem notifications_per_cycle_witness:
  "trace (snd (slackbot_check_new_competitions kaggle_world
      \<lparr>data_file = Stored [slackbot_titanic_record], trace = []\<rparr>))
     = [Saved [slackbot_titanic_record], Posted no_competition_message]
   \<and> trace (snd (slackbot_check_new_competitions kaggle_world \<lparr>data_file = Missing, trace = []\<rparr>))
     = [Saved [slackbot_titanic_record], Posted (slackbot_message slackbot_titanic_record)]
   \<and> trace (snd (main_check_new_competitions kaggle_world \<lparr>data_file = Missing, trace = []\<rparr>))
     = [Posted (main_message main_titanic_record), Saved [main_titanic_record]]"
  using notifications_per_cycle
      [of "\<lparr>data_file = Stored [slackbot_titanic_record], trace = []\<rparr>" kaggle_world]
    notifications_per_cycle [of "\<lparr>data_file = Missing, trace = []\<rparr>" kaggle_world]
  by (simp add: load_competition_data_def titanic_has_url slackbot_current_kaggle_world
      main_current_kaggle_world new_records_simps titanic_renders titanic_deliverable)

text \<open>
  Claim C3 as stated fails for \<open>main.py\<close>: in a cycle that fetches the one record already
  in the checkpoint, nothing is new and the trace holds the save only; no message is posted.
\<close>

theorem main_sends_nothing_when_nothing_is_new:
  "get_new_competitions (main_current kaggle_world) [main_titanic_record] = Inr []
   \<and> main_current kaggle_world = [main_titanic_record]
   \<and> trace (snd (main_check_new_competitions kaggle_world
        \<lparr>data_file = Stored [main_titanic_record], trace = []\<rparr>))
     = [Saved [main_titanic_record]]"
  by (simp add: main_cycle load_competition_data_def titanic_has_url main_current_kaggle_world
      new_records_simps get_new_competitions_filter)

text \<open>
  Claim C7, amended. With a checkpoint whose records carry a \<open>url\<close>: in a cycle of
  \<open>contest_noti_slackbot.py\<close> the fetched list is saved first and every message is posted
  after the save. In a cycle of \<open>main.py\<close> that fetched something the messages are posted
  first and the fetched list is saved last.
\<close>

theorem order_of_persist_and_notify:
  assumes "list_all has_url (load_competition_data s)"
  shows "(\<exists>ms. trace (snd (slackbot_check_new_competitions w s))
              = trace s @ Saved (slackbot_current w) # map Posted ms)
     \<and> (\<exists>ms. trace (snd (main_check_new_competitions w s))
              = (if main_current w = [] then trace s
                 else trace s @ map Posted ms @ [Saved (main_current w)]))"
proof -
  obtain r where cyc: "slackbot_check_new_competitions w s =
     (r, if new_records (slackbot_current w) (load_competition_data s) = []
         then (save_competition_data w (slackbot_current w) s)
                \<lparr>trace := trace s @ [Saved (slackbot_current w), Posted no_competition_message]\<rparr>
         else snd (slackbot_notify_each w
                (new_records (slackbot_current w) (load_competition_data s))
                (save_competition_data w (slackbot_current w) s)))"
    using slackbot_cycle [OF assms] by blast
  obtain r' s' where ne: "slackbot_notify_each w
                (new_records (slackbot_current w) (load_competition_data s))
                (save_competition_data w (slackbot_current w) s) = (r', s')"
    by (cases "slackbot_notify_each w
                (new_records (slackbot_current w) (load_competition_data s))
                (save_competition_data w (slackbot_current w) s)")
  from slackbot_notify_each_posts [OF ne] obtain ms where
    ms: "trace s' = trace s @ Saved (slackbot_current w) # map Posted ms"
    by (auto simp: save_competition_data_def)
  have "\<exists>ms. trace (snd (slackbot_check_new_competitions w s))
              = trace s @ Saved (slackbot_current w) # map Posted ms"
  proof (cases "new_records (slackbot_current w) (load_competition_data s) = []")
    case True
    with cyc have "trace (snd (slackbot_check_new_competitions w s))
        = trace s @ Saved (slackbot_current w) # map Posted [no_competition_message]"
      by simp
    then show ?thesis by blast
  next
    case False
    with cyc ne ms have "trace (snd (slackbot_check_new_competitions w s))
        = trace s @ Saved (slackbot_current w) # map Posted ms"
      by simp
    then show ?thesis by blast
  qed
  moreover have "trace (snd (main_check_new_competitions w s))
              = (if main_current w = [] then trace s
                 else trace s
                   @ map Posted (map main_message (filter main_renders
                       (new_records (main_current w) (load_competition_data s))))
                   @ [Saved (main_current w)])"
    by (simp add: main_cycle [OF assms])
  then have "\<exists>ms. trace (snd (main_check_new_competitions w s))
              = (if main_current w = [] then trace s
                 else trace s @ map Posted ms @ [Saved (main_current w)])"
    by blast
  ultimately show ?thesis by simp
qed

theorem order_of_persist_and_notify_witness:
  "(\<exists>ms. trace (snd (slackbot_check_new_competitions kaggle_world
            \<lparr>data_file = Missing, trace = []\<rparr>))
         = Saved [slackbot_titanic_record] # map Posted ms)
   \<and> (\<exists>ms. trace (snd (main_check_new_competitions kaggle_world
            \<lparr>data_file = Missing, trace = []\<rparr>))
         = map Posted ms @ [Saved [main_titanic_record]])"
  using order_of_persist_and_notify [of "\<lparr>data_file = Missing, trace = []\<rparr>" kaggle_world]
  by (simp add: load_competition_data_def slackbot_current_kaggle_world
      main_current_kaggle_world)

text \<open>
  Claim C7 as stated fails for \<open>main.py\<close>: in a cycle with one new record the message is
  posted before the checkpoint is written.
\<close>

theorem main_notifies_before_persisting:
  "trace (snd (main_check_new_competitions kaggle_world \<lparr>data_file = Missing, trace = []\<rparr>))
     = [Posted (main_message main_titanic_record), Saved [main_titanic_record]]"
  by (simp add: main_cycle load_competition_data_def main_current_kaggle_world
      new_records_simps titanic_renders)

end
